theory Spec2Isabelle
  imports
    Main
    "HOL-Library.Char_ord"
    "HOL-Library.List_Lexorder"
    "HOL-Library.Multiset"
begin

unbundle bit_operations_syntax

section \<open>Strings and the C helpers used by cpl\_aws.cpp\<close>

text \<open>
  A \<open>CPLString\<close> (a \<open>std::string\<close>) is a list of bytes, \<^typ>\<open>string\<close>.  The order on
  \<^typ>\<open>char\<close> is the order of the byte values (0..255) and the order on strings is the
  lexicographic one, which is how \<open>std::string\<close> compares and how a
  \<open>std::map<CPLString, CPLString>\<close> sorts its keys.
\<close>

subsection \<open>C and CPL helpers\<close>

text \<open>
  Strings that the source handles as C strings (\<open>const char*\<close>, \<open>c_str()\<close>) end at their
  first NUL byte; they are represented by the bytes before it.  The line feed and the NUL
  byte are written \<open>LF\<close> and \<open>NUL\<close>.
\<close>

abbreviation (input) LF :: string where
  "LF \<equiv> [CHR 0x0A]"

abbreviation (input) NUL :: char where
  "NUL \<equiv> CHR 0x00"

text \<open>
  Modelled from the spec: \<open>tolower\<close> of the C library in the "C" locale, which
  \<open>CPLString::tolower\<close> (cpl\_string.h, not among the sources) applies to every byte; the
  specification speaks of header names being lowercased.
\<close>

definition c_tolower :: "char \<Rightarrow> char" where
  "c_tolower c =
     (if CHR ''A'' \<le> c \<and> c \<le> CHR ''Z'' then char_of ((of_char c :: nat) + 32) else c)"

definition CPLString_tolower :: "string \<Rightarrow> string" where
  "CPLString_tolower s = map c_tolower s"

text \<open>
  Modelled from the spec: the macros \<open>EQUAL\<close>, \<open>STARTS_WITH\<close> and \<open>STARTS_WITH_CI\<close> of
  cpl\_port.h (not among the sources): equality of two C strings without regard to the case
  of ASCII letters, and the test that the second string is a prefix of the first, exactly
  and without regard to case.
\<close>

definition EQUAL :: "string \<Rightarrow> string \<Rightarrow> bool" where
  "EQUAL a b \<longleftrightarrow> map c_tolower a = map c_tolower b"

definition STARTS_WITH :: "string \<Rightarrow> string \<Rightarrow> bool" where
  "STARTS_WITH a b \<longleftrightarrow> take (length b) a = b"

definition STARTS_WITH_CI :: "string \<Rightarrow> string \<Rightarrow> bool" where
  "STARTS_WITH_CI a b \<longleftrightarrow> length b \<le> length a \<and> EQUAL (take (length b) a) b"

text \<open>
  Modelled from the spec: \<open>CPLString::Trim\<close> (cpl\_string.h, not among the sources) removes
  the white space (space, tab, carriage return, line feed) at both ends; the specification
  speaks of header values being trimmed.
\<close>

definition is_whitespace :: "char \<Rightarrow> bool" where
  "is_whitespace c \<longleftrightarrow> c = CHR '' '' \<or> c = CHR 0x09 \<or> c = CHR 0x0D \<or> c = CHR 0x0A"

definition CPLString_Trim :: "string \<Rightarrow> string" where
  "CPLString_Trim s = rev (dropWhile is_whitespace (rev (dropWhile is_whitespace s)))"

text \<open>
  \<open>std::string::resize(n)\<close>: the string is cut to its first \<open>n\<close> bytes when it is longer
  and padded with NUL bytes up to \<open>n\<close> bytes when it is shorter.
\<close>

definition CPLString_resize :: "nat \<Rightarrow> string \<Rightarrow> string" where
  "CPLString_resize n s = take n s @ replicate (n - length s) NUL"

text \<open>\<open>std::string::find(ch)\<close>: the position of the first occurrence, \<open>None\<close> for \<open>npos\<close>.\<close>

fun string_find :: "string \<Rightarrow> char \<Rightarrow> nat option" where
  "string_find [] ch = None"
| "string_find (c # cs) ch = (if c = ch then Some 0 else map_option Suc (string_find cs ch))"

text \<open>
  \<open>strstr(haystack, needle)\<close> of the C library: the offset of the first occurrence of
  \<open>needle\<close>, \<open>None\<close> for a null result.
\<close>

fun strstr :: "string \<Rightarrow> string \<Rightarrow> nat option" where
  "strstr [] needle = (if needle = [] then Some 0 else None)"
| "strstr (c # cs) needle =
     (if take (length needle) (c # cs) = needle then Some 0
      else map_option Suc (strstr cs needle))"

subsection \<open>A sorted map of strings (std::map<CPLString, CPLString>)\<close>

text \<open>
  The map is the list of its entries in the order of iteration, that is with strictly
  increasing keys.  \<open>map_assign k v m\<close> is the assignment \<open>m[k] = v\<close>.
\<close>

type_synonym std_map = "(string \<times> string) list"

fun map_assign :: "string \<Rightarrow> string \<Rightarrow> std_map \<Rightarrow> std_map" where
  "map_assign k v [] = [(k, v)]"
| "map_assign k v ((k', v') # m) =
     (if k < k' then (k, v) # (k', v') # m
      else if k = k' then (k, v) # m
      else (k', v') # map_assign k v m)"

definition is_std_map :: "std_map \<Rightarrow> bool" where
  "is_std_map m \<longleftrightarrow> sorted_wrt (<) (map fst m)"

subsection \<open>Lower-case hexadecimal (CPLGetLowerCaseHex, lines 78-96)\<close>

definition achHex :: string where
  "achHex = ''0123456789abcdef''"

fun CPLGetLowerCaseHex :: "string \<Rightarrow> string" where
  "CPLGetLowerCaseHex [] = []"
| "CPLGetLowerCaseHex (b # pabyData) =
     (let nLow = (of_char b :: nat) AND 0x0f;
          nHigh = drop_bit 4 ((of_char b :: nat) AND 0xf0)
      in achHex ! nHigh # achHex ! nLow # CPLGetLowerCaseHex pabyData)"

text \<open>
  \<open>CPL_SHA256\<close> and \<open>CPL_HMAC_SHA256\<close> (cpl\_sha256.h) are not among the sources: the
  functions below take them as the parameters \<open>SHA256\<close> (message to digest) and \<open>HMAC\<close>
  (key and message to digest).
\<close>

definition CPLGetLowerCaseHexSHA256 :: "(string \<Rightarrow> string) \<Rightarrow> string \<Rightarrow> string" where
  "CPLGetLowerCaseHexSHA256 SHA256 osStr = CPLGetLowerCaseHex (SHA256 osStr)"

subsection \<open>URL encoding (CPLAWSURLEncode, lines 122-147)\<close>

text \<open>
  The test of line 128-130.  The source compares \<open>char\<close> values; a byte above 0x7F is
  negative where \<open>char\<close> is signed and above \<open>'z'\<close> where it is unsigned, so each of the
  three range tests fails for it in both cases, as it does here.
\<close>

definition is_unreserved :: "char \<Rightarrow> bool" where
  "is_unreserved ch \<longleftrightarrow>
     (CHR ''A'' \<le> ch \<and> ch \<le> CHR ''Z'') \<or> (CHR ''a'' \<le> ch \<and> ch \<le> CHR ''z'') \<or>
     (CHR ''0'' \<le> ch \<and> ch \<le> CHR ''9'') \<or>
     ch = CHR ''_'' \<or> ch = CHR ''-'' \<or> ch = CHR ''~'' \<or> ch = CHR ''.''"

text \<open>
  \<open>CPLSPrintf("%%%02X", static_cast<unsigned char>(ch))\<close>: a percent sign and the value of
  the byte as two upper-case hexadecimal digits, padded with a zero.
\<close>

definition achHexUpper :: string where
  "achHexUpper = ''0123456789ABCDEF''"

definition CPLSPrintf_pct02X :: "char \<Rightarrow> string" where
  "CPLSPrintf_pct02X ch =
     [CHR ''%'', achHexUpper ! ((of_char ch :: nat) div 16), achHexUpper ! ((of_char ch :: nat) mod 16)]"

text \<open>The loop of lines 125-145; \<open>osRet\<close> is the string built so far.\<close>

fun CPLAWSURLEncode_loop :: "string \<Rightarrow> bool \<Rightarrow> string \<Rightarrow> string" where
  "CPLAWSURLEncode_loop [] bEncodeSlash osRet = osRet"
| "CPLAWSURLEncode_loop (ch # rest) bEncodeSlash osRet =
     CPLAWSURLEncode_loop rest bEncodeSlash
       (if is_unreserved ch then osRet @ [ch]
        else if ch = CHR ''/'' then
          (if bEncodeSlash then osRet @ ''%2F'' else osRet @ [ch])
        else osRet @ CPLSPrintf_pct02X ch)"

definition CPLAWSURLEncode :: "string \<Rightarrow> bool \<Rightarrow> string" where
  "CPLAWSURLEncode osURL bEncodeSlash = CPLAWSURLEncode_loop osURL bEncodeSlash []"

text \<open>
  The encoding as the specification words it (section 4.A): the unreserved set is
  \<open>A-Z a-z 0-9 _ - ~ .\<close>, a slash is kept unless \<open>encode_slash\<close>, and every other byte
  becomes a percent sign and two upper-case hexadecimal digits.
\<close>

definition unreserved_set :: "char set" where
  "unreserved_set =
     set (''ABCDEFGHIJKLMNOPQRSTUVWXYZ'' @ ''abcdefghijklmnopqrstuvwxyz'' @ ''0123456789'' @ ''_-~.'')"

definition upper_hex_digit :: "nat \<Rightarrow> char" where
  "upper_hex_digit d = (if d < 10 then char_of (of_char (CHR ''0'') + d)
                        else char_of (of_char (CHR ''A'') + (d - 10)))"

definition url_encode_byte :: "bool \<Rightarrow> char \<Rightarrow> string" where
  "url_encode_byte encode_slash c =
     (if c \<in> unreserved_set then [c]
      else if c = CHR ''/'' then (if encode_slash then ''%2F'' else ''/'')
      else [CHR ''%'', upper_hex_digit ((of_char c :: nat) div 16),
                       upper_hex_digit ((of_char c :: nat) mod 16)])"


section \<open>Signature version 4\<close>

subsection \<open>Canonical headers (BuildCanonicalizedHeaders, lines 506-536)\<close>

text \<open>
  The first loop, over the list \<open>psExistingHeaders\<close> of header lines: a line that starts
  with the prefix or with \<open>Content-MD5\<close> (without regard to case) and has a colon is stored
  in the map, under the lower-cased text before the first colon, with the trimmed text
  after it.
\<close>

fun BuildCanonicalizedHeaders_fold :: "std_map \<Rightarrow> string list \<Rightarrow> string \<Rightarrow> std_map" where
  "BuildCanonicalizedHeaders_fold oSortedMapHeaders [] pszHeaderPrefix = oSortedMapHeaders"
| "BuildCanonicalizedHeaders_fold oSortedMapHeaders (data # next) pszHeaderPrefix =
     BuildCanonicalizedHeaders_fold
       (if STARTS_WITH_CI data pszHeaderPrefix \<or> STARTS_WITH_CI data ''Content-MD5'' then
          (case strstr data '':'' of
             None \<Rightarrow> oSortedMapHeaders
           | Some pszColumn \<Rightarrow>
               map_assign (CPLString_tolower (take pszColumn data))
                 (CPLString_Trim (drop (pszColumn + length '':'') data)) oSortedMapHeaders)
        else oSortedMapHeaders)
       next pszHeaderPrefix"

text \<open>The second loop: one line \<open>key:value\<close> and a line feed for each entry of the map.\<close>

fun BuildCanonicalizedHeaders_lines :: "std_map \<Rightarrow> string" where
  "BuildCanonicalizedHeaders_lines [] = []"
| "BuildCanonicalizedHeaders_lines ((first, second) # m) =
     first @ '':'' @ second @ LF @ BuildCanonicalizedHeaders_lines m"

text \<open>
  The function returns the canonical headers; the map is passed by reference, so the map
  as the function leaves it is returned too.
\<close>

definition BuildCanonicalizedHeaders :: "std_map \<Rightarrow> string list \<Rightarrow> string \<Rightarrow> string \<times> std_map" where
  "BuildCanonicalizedHeaders oSortedMapHeaders psExistingHeaders pszHeaderPrefix =
     (let m = BuildCanonicalizedHeaders_fold oSortedMapHeaders psExistingHeaders pszHeaderPrefix
      in (BuildCanonicalizedHeaders_lines m, m))"

text \<open>
  The header lines that the first loop stores, as (key, value) pairs in the order of the
  list: the words of the specification (section 4.C, step 4) for "fold in any existing
  header whose name begins with the prefix or is Content-MD5".
\<close>

definition folded_entry :: "string \<Rightarrow> string \<Rightarrow> (string \<times> string) option" where
  "folded_entry pszHeaderPrefix data =
     (if STARTS_WITH_CI data pszHeaderPrefix \<or> STARTS_WITH_CI data ''Content-MD5'' then
        (case strstr data '':'' of
           None \<Rightarrow> None
         | Some n \<Rightarrow> Some (CPLString_tolower (take n data), CPLString_Trim (drop (Suc n) data)))
      else None)"

definition folded_entries :: "string \<Rightarrow> string list \<Rightarrow> (string \<times> string) list" where
  "folded_entries pszHeaderPrefix hs = List.map_filter (folded_entry pszHeaderPrefix) hs"

text \<open>Two folded headers of the same name carry the same value.\<close>

definition consistent_entries :: "(string \<times> string) list \<Rightarrow> bool" where
  "consistent_entries es \<longleftrightarrow> list_all (\<lambda>e. list_all (\<lambda>e'. fst e \<noteq> fst e' \<or> snd e = snd e') es) es"

subsection \<open>The signature (CPLGetAWS\_SIGN4\_Signature, lines 175-305)\<close>

text \<open>Lines 200-210: the headers that are always signed.\<close>

definition SIGN4_SortedMapHeaders ::
  "string \<Rightarrow> string \<Rightarrow> string \<Rightarrow> string \<Rightarrow> bool \<Rightarrow> string \<Rightarrow> std_map" where
  "SIGN4_SortedMapHeaders osAccessToken osRequestPayer osHost osXAMZContentSHA256
       bAddHeaderAMZContentSHA256 osTimestamp =
     (let m0 = map_assign ''host'' osHost [];
          m1 = (if osXAMZContentSHA256 \<noteq> ''UNSIGNED-PAYLOAD'' \<and> bAddHeaderAMZContentSHA256
                then map_assign ''x-amz-date'' osTimestamp
                       (map_assign ''x-amz-content-sha256'' osXAMZContentSHA256 m0)
                else m0);
          m2 = (if osRequestPayer \<noteq> [] then map_assign ''x-amz-request-payer'' osRequestPayer m1
                else m1)
      in if osAccessToken \<noteq> [] then map_assign ''x-amz-security-token'' osAccessToken m2
         else m2)"

text \<open>Lines 219-226: the keys of the map joined by semicolons.\<close>

fun SIGN4_SignedHeaders_loop :: "std_map \<Rightarrow> string \<Rightarrow> string" where
  "SIGN4_SignedHeaders_loop [] osSignedHeaders = osSignedHeaders"
| "SIGN4_SignedHeaders_loop ((first, second) # m) osSignedHeaders =
     SIGN4_SignedHeaders_loop m
       ((if osSignedHeaders \<noteq> [] then osSignedHeaders @ '';'' else osSignedHeaders) @ first)"

text \<open>Lines 194-230: the canonical request and the list of signed headers.\<close>

definition SIGN4_CanonicalRequest ::
  "string \<Rightarrow> string \<Rightarrow> string \<Rightarrow> string list \<Rightarrow> string \<Rightarrow> string \<Rightarrow> string \<Rightarrow> string
     \<Rightarrow> bool \<Rightarrow> string \<Rightarrow> string \<times> string" where
  "SIGN4_CanonicalRequest osAccessToken osRequestPayer osVerb psExistingHeaders osHost
       osCanonicalURI osCanonicalQueryString osXAMZContentSHA256 bAddHeaderAMZContentSHA256
       osTimestamp =
     (let (osCanonicalizedHeaders, oSortedMapHeaders) =
            BuildCanonicalizedHeaders
              (SIGN4_SortedMapHeaders osAccessToken osRequestPayer osHost osXAMZContentSHA256
                 bAddHeaderAMZContentSHA256 osTimestamp)
              psExistingHeaders ''x-amz-'';
          osSignedHeaders = SIGN4_SignedHeaders_loop oSortedMapHeaders []
      in (osVerb @ LF @ osCanonicalURI @ LF @ osCanonicalQueryString @ LF
            @ osCanonicalizedHeaders @ LF @ osSignedHeaders @ LF @ osXAMZContentSHA256,
          osSignedHeaders))"

text \<open>Lines 242-250: the date \<open>osYYMMDD\<close> and the scope \<open>osScope\<close>.\<close>

definition SIGN4_YYMMDD :: "string \<Rightarrow> string" where
  "SIGN4_YYMMDD osTimestamp = CPLString_resize 8 osTimestamp"

definition SIGN4_Scope :: "string \<Rightarrow> string \<Rightarrow> string \<Rightarrow> string" where
  "SIGN4_Scope osTimestamp osRegion osService =
     SIGN4_YYMMDD osTimestamp @ ''/'' @ osRegion @ ''/'' @ osService @ ''/aws4_request''"

text \<open>Lines 239-251: the string to sign.\<close>

definition SIGN4_StringToSign ::
  "(string \<Rightarrow> string) \<Rightarrow> string \<Rightarrow> string \<Rightarrow> string \<Rightarrow> string \<Rightarrow> string" where
  "SIGN4_StringToSign SHA256 osTimestamp osRegion osService osCanonicalRequest =
     ''AWS4-HMAC-SHA256'' @ LF @ osTimestamp @ LF
       @ SIGN4_Scope osTimestamp osRegion osService @ LF
       @ CPLGetLowerCaseHexSHA256 SHA256 osCanonicalRequest"

text \<open>Lines 260-282: the signing key, four applications of the keyed hash.\<close>

definition SIGN4_SigningKey ::
  "(string \<Rightarrow> string \<Rightarrow> string) \<Rightarrow> string \<Rightarrow> string \<Rightarrow> string \<Rightarrow> string \<Rightarrow> string" where
  "SIGN4_SigningKey HMAC osSecretAccessKey osTimestamp osRegion osService =
     (let osFirstKey = ''AWS4'' @ osSecretAccessKey;
          k1 = HMAC osFirstKey (SIGN4_YYMMDD osTimestamp);
          k2 = HMAC k1 osRegion;
          k3 = HMAC k2 osService
      in HMAC k3 ''aws4_request'')"

text \<open>The function returns the signature and, through a reference, the signed headers.\<close>

definition CPLGetAWS_SIGN4_Signature ::
  "(string \<Rightarrow> string) \<Rightarrow> (string \<Rightarrow> string \<Rightarrow> string) \<Rightarrow> string \<Rightarrow> string \<Rightarrow> string
     \<Rightarrow> string \<Rightarrow> string \<Rightarrow> string \<Rightarrow> string list \<Rightarrow> string \<Rightarrow> string \<Rightarrow> string \<Rightarrow> string
     \<Rightarrow> bool \<Rightarrow> string \<Rightarrow> string \<times> string" where
  "CPLGetAWS_SIGN4_Signature SHA256 HMAC osSecretAccessKey osAccessToken osRegion osRequestPayer
       osService osVerb psExistingHeaders osHost osCanonicalURI osCanonicalQueryString
       osXAMZContentSHA256 bAddHeaderAMZContentSHA256 osTimestamp =
     (let (osCanonicalRequest, osSignedHeaders) =
            SIGN4_CanonicalRequest osAccessToken osRequestPayer osVerb psExistingHeaders osHost
              osCanonicalURI osCanonicalQueryString osXAMZContentSHA256
              bAddHeaderAMZContentSHA256 osTimestamp;
          osStringToSign =
            SIGN4_StringToSign SHA256 osTimestamp osRegion osService osCanonicalRequest;
          abySigningKey = SIGN4_SigningKey HMAC osSecretAccessKey osTimestamp osRegion osService;
          abySignature = HMAC abySigningKey osStringToSign
      in (CPLGetLowerCaseHex abySignature, osSignedHeaders))"

subsection \<open>The Authorization header (CPLGetAWS\_SIGN4\_Authorization, lines 311-372)\<close>

definition CPLGetAWS_SIGN4_Authorization ::
  "(string \<Rightarrow> string) \<Rightarrow> (string \<Rightarrow> string \<Rightarrow> string) \<Rightarrow> string \<Rightarrow> string \<Rightarrow> string
     \<Rightarrow> string \<Rightarrow> string \<Rightarrow> string \<Rightarrow> string \<Rightarrow> string list \<Rightarrow> string \<Rightarrow> string \<Rightarrow> string
     \<Rightarrow> string \<Rightarrow> bool \<Rightarrow> string \<Rightarrow> string" where
  "CPLGetAWS_SIGN4_Authorization SHA256 HMAC osSecretAccessKey osAccessKeyId osAccessToken osRegion
       osRequestPayer osService osVerb psExistingHeaders osHost osCanonicalURI
       osCanonicalQueryString osXAMZContentSHA256 bAddHeaderAMZContentSHA256 osTimestamp =
     (let (osSignature, osSignedHeaders) =
            CPLGetAWS_SIGN4_Signature SHA256 HMAC osSecretAccessKey osAccessToken osRegion
              osRequestPayer osService osVerb psExistingHeaders osHost osCanonicalURI
              osCanonicalQueryString osXAMZContentSHA256 bAddHeaderAMZContentSHA256 osTimestamp;
          osYYMMDD = CPLString_resize 8 osTimestamp
      in ''AWS4-HMAC-SHA256 Credential='' @ osAccessKeyId @ ''/'' @ osYYMMDD @ ''/'' @ osRegion
           @ ''/'' @ osService @ ''/'' @ ''aws4_request'' @ '','' @ ''SignedHeaders=''
           @ osSignedHeaders @ '','' @ ''Signature='' @ osSignature)"

text \<open>
  The signature as the specification words it (section 4.C), with the date \<open>YYYYMMDD\<close> read
  as the first eight characters of the timestamp, and \<open>lower_hex\<close> (section 4.A): two
  lower-case hexadecimal digits for each byte.
\<close>

definition lower_hex_digit :: "nat \<Rightarrow> char" where
  "lower_hex_digit d = (if d < 10 then char_of (of_char (CHR ''0'') + d)
                        else char_of (of_char (CHR ''a'') + (d - 10)))"

definition lower_hex :: "string \<Rightarrow> string" where
  "lower_hex bytes =
     concat (map (\<lambda>b. [lower_hex_digit ((of_char b :: nat) div 16),
                        lower_hex_digit ((of_char b :: nat) mod 16)]) bytes)"

definition spec_scope :: "string \<Rightarrow> string \<Rightarrow> string \<Rightarrow> string" where
  "spec_scope timestamp region service =
     take 8 timestamp @ ''/'' @ region @ ''/'' @ service @ ''/aws4_request''"


definition sigv4_signature ::
  "(string \<Rightarrow> string) \<Rightarrow> (string \<Rightarrow> string \<Rightarrow> string) \<Rightarrow> string \<Rightarrow> string \<Rightarrow> string
     \<Rightarrow> string \<Rightarrow> string \<Rightarrow> string \<Rightarrow> string" where
  "sigv4_signature SHA256 HMAC secret region service timestamp yyyymmdd canonical_request =
     (let scope = yyyymmdd @ ''/'' @ region @ ''/'' @ service @ ''/aws4_request'';
          string_to_sign = ''AWS4-HMAC-SHA256'' @ LF @ timestamp @ LF @ scope @ LF
                             @ lower_hex (SHA256 canonical_request);
          signing_key = HMAC (HMAC (HMAC (HMAC (''AWS4'' @ secret) yyyymmdd) region) service)
                          ''aws4_request''
      in lower_hex (HMAC signing_key string_to_sign))"

section \<open>The request handle\<close>

subsection \<open>Errors and warnings\<close>

text \<open>
  Every call of \<open>CPLError\<close> and \<open>VSIError\<close> is recorded, in order, with its class, its error
  number and its formatted message.  \<open>CPLDebug\<close> messages are not recorded.
\<close>

datatype CPLErr = CE_Warning | CE_Failure

datatype error_num =
    CPLE_AppDefined
  | VSIE_AWSError
  | VSIE_AWSAccessDenied
  | VSIE_AWSBucketNotFound
  | VSIE_AWSObjectNotFound
  | VSIE_AWSInvalidCredentials
  | VSIE_AWSSignatureDoesNotMatch

datatype report = CPLError CPLErr error_num string | VSIError error_num string

subsection \<open>The handle (class VSIS3HandleHelper)\<close>

datatype AWSCredentialsSource = REGULAR | EC2 | WEB_IDENTITY | ASSUMED_ROLE

record VSIS3HandleHelper =
  m_osURL :: string
  m_osSecretAccessKey :: string
  m_osAccessKeyId :: string
  m_osSessionToken :: string
  m_osEndpoint :: string
  m_osRegion :: string
  m_osRequestPayer :: string
  m_osBucket :: string
  m_osObjectKey :: string
  m_bUseHTTPS :: bool
  m_bUseVirtualHosting :: bool
  m_eCredentialsSource :: AWSCredentialsSource
  m_oMapQueryParameters :: std_map

text \<open>
  \<open>BuildURL\<close> (lines 438-457).  Modelled from the spec: \<open>CPLSPrintf\<close> (cpl\_string.h, not
  among the sources) is taken as the formatting of its arguments into a string of whatever
  length is needed.
\<close>

definition BuildURL :: "string \<Rightarrow> string \<Rightarrow> string \<Rightarrow> bool \<Rightarrow> bool \<Rightarrow> string" where
  "BuildURL osEndpoint osBucket osObjectKey bUseHTTPS bUseVirtualHosting =
     (let pszProtocol = (if bUseHTTPS then ''https'' else ''http'') in
      if osBucket = [] then pszProtocol @ ''://'' @ osEndpoint
      else if bUseVirtualHosting then
        pszProtocol @ ''://'' @ osBucket @ ''.'' @ osEndpoint @ ''/''
          @ CPLAWSURLEncode osObjectKey False
      else
        pszProtocol @ ''://'' @ osEndpoint @ ''/'' @ osBucket @ ''/''
          @ CPLAWSURLEncode osObjectKey False)"

text \<open>The constructor (lines 398-422); the map of query parameters starts empty.\<close>

definition VSIS3HandleHelper_new ::
  "string \<Rightarrow> string \<Rightarrow> string \<Rightarrow> string \<Rightarrow> string \<Rightarrow> string \<Rightarrow> string \<Rightarrow> string \<Rightarrow> bool \<Rightarrow> bool
     \<Rightarrow> AWSCredentialsSource \<Rightarrow> VSIS3HandleHelper" where
  "VSIS3HandleHelper_new osSecretAccessKey osAccessKeyId osSessionToken osEndpoint osRegion
       osRequestPayer osBucket osObjectKey bUseHTTPS bUseVirtualHosting eCredentialsSource =
     \<lparr> m_osURL = BuildURL osEndpoint osBucket osObjectKey bUseHTTPS bUseVirtualHosting,
       m_osSecretAccessKey = osSecretAccessKey,
       m_osAccessKeyId = osAccessKeyId,
       m_osSessionToken = osSessionToken,
       m_osEndpoint = osEndpoint,
       m_osRegion = osRegion,
       m_osRequestPayer = osRequestPayer,
       m_osBucket = osBucket,
       m_osObjectKey = osObjectKey,
       m_bUseHTTPS = bUseHTTPS,
       m_bUseVirtualHosting = bUseVirtualHosting,
       m_eCredentialsSource = eCredentialsSource,
       m_oMapQueryParameters = [] \<rparr>"

text \<open>
  The destructor (lines 428-432): the loop writes a zero at every index of the secret
  access key.
\<close>

function destructor_loop :: "nat \<Rightarrow> string \<Rightarrow> string" where
  "destructor_loop i osSecretAccessKey =
     (if i < length osSecretAccessKey
      then destructor_loop (i + 1) (osSecretAccessKey[i := NUL])
      else osSecretAccessKey)"
  by pat_completeness auto
termination
  by (relation "measure (\<lambda>(i, s). length s - i)") auto

declare destructor_loop.simps [simp del]

definition VSIS3HandleHelper_destructor :: "VSIS3HandleHelper \<Rightarrow> VSIS3HandleHelper" where
  "VSIS3HandleHelper_destructor h =
     h\<lparr> m_osSecretAccessKey := destructor_loop 0 (m_osSecretAccessKey h) \<rparr>"

text \<open>
  \<open>GetQueryString\<close> (lines 1832-1851).  \<open>CPLAWSURLEncode\<close> is called with its default second
  argument, which is true.
\<close>

fun GetQueryString_loop :: "std_map \<Rightarrow> bool \<Rightarrow> bool \<Rightarrow> string \<Rightarrow> string" where
  "GetQueryString_loop [] is_begin bAddEmptyValueAfterEqual osQueryString = osQueryString"
| "GetQueryString_loop ((first, second) # m) is_begin bAddEmptyValueAfterEqual osQueryString =
     GetQueryString_loop m False bAddEmptyValueAfterEqual
       (osQueryString @ (if is_begin then ''?'' else ''&'') @ first
          @ (if second \<noteq> [] \<or> bAddEmptyValueAfterEqual
             then ''='' @ CPLAWSURLEncode second True else []))"

definition GetQueryString :: "VSIS3HandleHelper \<Rightarrow> bool \<Rightarrow> string" where
  "GetQueryString h bAddEmptyValueAfterEqual =
     GetQueryString_loop (m_oMapQueryParameters h) True bAddEmptyValueAfterEqual []"

text \<open>\<open>RebuildURL\<close> (lines 463-468) and the setters (lines 2174-2206).\<close>

definition RebuildURL :: "VSIS3HandleHelper \<Rightarrow> VSIS3HandleHelper" where
  "RebuildURL h =
     h\<lparr> m_osURL := BuildURL (m_osEndpoint h) (m_osBucket h) (m_osObjectKey h) (m_bUseHTTPS h)
                       (m_bUseVirtualHosting h) @ GetQueryString h False \<rparr>"

definition SetEndpoint :: "string \<Rightarrow> VSIS3HandleHelper \<Rightarrow> VSIS3HandleHelper" where
  "SetEndpoint osStr h = RebuildURL (h\<lparr> m_osEndpoint := osStr \<rparr>)"

definition SetRegion :: "string \<Rightarrow> VSIS3HandleHelper \<Rightarrow> VSIS3HandleHelper" where
  "SetRegion osStr h = h\<lparr> m_osRegion := osStr \<rparr>"

definition SetVirtualHosting :: "bool \<Rightarrow> VSIS3HandleHelper \<Rightarrow> VSIS3HandleHelper" where
  "SetVirtualHosting b h = RebuildURL (h\<lparr> m_bUseVirtualHosting := b \<rparr>)"

subsection \<open>Bucket and object key (GetBucketAndObjectKey, lines 474-500)\<close>

text \<open>
  The function returns its boolean result, the two strings it writes through references
  (the object key is left as it was where the function does not assign it) and the errors
  it reports.
\<close>

definition GetBucketAndObjectKey ::
  "string \<Rightarrow> string \<Rightarrow> bool \<Rightarrow> string \<Rightarrow> bool \<times> string \<times> string \<times> report list" where
  "GetBucketAndObjectKey pszURI pszFSPrefix bAllowNoObject osObjectKey =
     (let osBucket = pszURI in
      if osBucket = [] then (False, osBucket, osObjectKey, [])
      else
        (case string_find osBucket (CHR ''/'') of
           None \<Rightarrow>
             if bAllowNoObject then (True, osBucket, [], [])
             else (False, osBucket, osObjectKey,
                   [CPLError CE_Failure CPLE_AppDefined
                      (''Filename should be of the form '' @ pszFSPrefix @ ''bucket/key'')])
         | Some nPos \<Rightarrow> (True, CPLString_resize nPos osBucket, drop (nPos + 1) pszURI, [])))"


section \<open>Credentials\<close>

subsection \<open>Lists of strings and of name/value pairs (class CPLStringList)\<close>

text \<open>
  Modelled from the spec: \<open>CPLStringList\<close> (cpl\_string.h) is not among the sources.  A list
  of words is a list of strings; \<open>operator[]\<close> is the total accessor, which yields the null
  pointer (\<open>None\<close>) for an index outside the list.  A list of name/value pairs is an
  association list in the order of insertion; names are compared without regard to case.
  \<open>SetNameValue\<close> replaces the value of an existing name, or removes the entry when the
  value is the null pointer; for a new name it adds an entry, or does nothing when the name
  or the value is the null pointer.  \<open>FetchNameValueDef\<close> yields the value of the first
  entry of the name, or the default.
\<close>

definition CPLStringList_index :: "string list \<Rightarrow> int \<Rightarrow> string option" where
  "CPLStringList_index l i = (if i < 0 \<or> int (length l) \<le> i then None else Some (l ! nat i))"

type_synonym name_values = "(string \<times> string) list"

fun FindName :: "name_values \<Rightarrow> string \<Rightarrow> nat option" where
  "FindName [] pszKey = None"
| "FindName ((n, v) # l) pszKey =
     (if EQUAL n pszKey then Some 0 else map_option Suc (FindName l pszKey))"

definition SetNameValue :: "string option \<Rightarrow> string option \<Rightarrow> name_values \<Rightarrow> name_values" where
  "SetNameValue pszKey pszValue l =
     (case pszKey of
        None \<Rightarrow> l
      | Some k \<Rightarrow>
          (case FindName l k of
             None \<Rightarrow> (case pszValue of None \<Rightarrow> l | Some v \<Rightarrow> l @ [(k, v)])
           | Some iKey \<Rightarrow>
               (case pszValue of
                  None \<Rightarrow> take iKey l @ drop (Suc iKey) l
                | Some v \<Rightarrow> l[iKey := (k, v)])))"

definition FetchNameValueDef :: "name_values \<Rightarrow> string \<Rightarrow> string \<Rightarrow> string" where
  "FetchNameValueDef l pszName pszDefault =
     (case FindName l pszName of None \<Rightarrow> pszDefault | Some i \<Rightarrow> snd (l ! i))"

definition with_default :: "'a option \<Rightarrow> 'a \<Rightarrow> 'a" where
  "with_default v d = (case v of None \<Rightarrow> d | Some x \<Rightarrow> x)"

text \<open>
  Modelled from the spec: \<open>CPLTestBool\<close> (cpl\_conv.h, not among the sources): false for
  \<open>NO\<close>, \<open>FALSE\<close>, \<open>OFF\<close> and \<open>0\<close> in any case, true for every other value.
\<close>

definition CPLTestBool :: "string \<Rightarrow> bool" where
  "CPLTestBool pszValue \<longleftrightarrow>
     \<not> (EQUAL pszValue ''NO'' \<or> EQUAL pszValue ''FALSE'' \<or> EQUAL pszValue ''OFF''
        \<or> EQUAL pszValue ''0'')"

text \<open>The C string held by an array of bytes: the bytes before the first NUL.\<close>

definition c_str :: "string \<Rightarrow> string" where
  "c_str s = takeWhile (\<lambda>c. c \<noteq> NUL) s"

subsection \<open>The environment\<close>

text \<open>
  The functions of the library that the file calls and that are not among the sources
  (configuration options, the clock, HTTP transport, file access, the XML and JSON
  tokenizers, the hash primitives, date conversion) are the fields of an environment.
  A configuration option yields \<open>None\<close> when it is not set; a file yields \<open>None\<close> when it
  cannot be opened; \<open>CPLHTTPFetch\<close> yields \<open>None\<close> for a null result.  The clock is read once
  for a call.  The type \<open>'x\<close> is that of the nodes of an XML tree.
\<close>

record CPLHTTPResult =
  nStatus :: int
  pabyData :: "string option"
  pszErrBuf :: "string option"

record tm =
  tm_year :: int
  tm_mon :: int
  tm_mday :: int
  tm_hour :: int
  tm_min :: int
  tm_sec :: int

record 'x env =
  VSIGetPathSpecificOption :: "string \<Rightarrow> string \<Rightarrow> string option"
  CPLGetConfigOption :: "string \<Rightarrow> string option"
  time_now :: int
  CPLHTTPFetch :: "string \<Rightarrow> name_values \<Rightarrow> CPLHTTPResult option"
  file_lines :: "string \<Rightarrow> string list option"
  file_bytes :: "string \<Rightarrow> string option"
  CPLParseXMLString :: "string \<Rightarrow> 'x option"
  CPLGetXMLNode :: "'x \<Rightarrow> string \<Rightarrow> 'x option"
  CPLGetXMLValue :: "'x \<Rightarrow> string \<Rightarrow> string option"
  CPL_SHA256 :: "string \<Rightarrow> string"
  CPL_HMAC_SHA256 :: "string \<Rightarrow> string \<Rightarrow> string"
  CPLParseNameValue :: "string \<Rightarrow> (string \<times> string) option"
  sscanf_iso8601 :: "string \<Rightarrow> (int \<times> int \<times> int \<times> int \<times> int \<times> int) option"
  CPLYMDHMSToUnixTime :: "tm \<Rightarrow> int"
  CPLUnixTimeToYMDHMS :: "int \<Rightarrow> tm"
  CSLTokenizeString2 :: "string \<Rightarrow> string list"

text \<open>The three strings that the credential functions write through references.\<close>

record credentials =
  cSecretAccessKey :: string
  cAccessKeyId :: string
  cSessionToken :: string

text \<open>The static variables of lines 52-72; the mutex \<open>ghMutex\<close> is not modelled.\<close>

record globals =
  gosIAMRole :: string
  gosGlobalAccessKeyId :: string
  gosGlobalSecretAccessKey :: string
  gosGlobalSessionToken :: string
  gnGlobalExpiration :: int
  gosRegion :: string
  gosRoleArn :: string
  gosExternalId :: string
  gosMFASerial :: string
  gosRoleSessionName :: string
  gosSourceProfileAccessKeyId :: string
  gosSourceProfileSecretAccessKey :: string
  gosSourceProfileSessionToken :: string
  gosRoleArnWebIdentity :: string
  gosWebIdentityTokenFile :: string

subsection \<open>Timestamps (CPLGetAWS\_SIGN4\_Timestamp, lines 378-392)\<close>

text \<open>
  \<open>printf_0d w n\<close> is the conversion \<open>%0wd\<close> of \<open>snprintf\<close>: the decimal digits of \<open>n\<close>,
  with a minus sign for a negative number, padded with zeros to \<open>w\<close> characters.  The
  buffer of 80 bytes holds any six numbers of type \<open>int\<close> in this format.
\<close>

fun nat_decimal :: "nat \<Rightarrow> string" where
  "nat_decimal n =
     (if n < 10 then [char_of (of_char (CHR ''0'') + n)]
      else nat_decimal (n div 10) @ [char_of (of_char (CHR ''0'') + n mod 10)])"

declare nat_decimal.simps [simp del]

definition printf_0d :: "nat \<Rightarrow> int \<Rightarrow> string" where
  "printf_0d w n =
     (if n < 0 then
        (let d = nat_decimal (nat (- n)) in ''-'' @ replicate (w - 1 - length d) (CHR ''0'') @ d)
      else
        (let d = nat_decimal (nat n) in replicate (w - length d) (CHR ''0'') @ d))"

definition CPLGetAWS_SIGN4_Timestamp :: "'x env \<Rightarrow> int \<Rightarrow> string" where
  "CPLGetAWS_SIGN4_Timestamp env timestamp =
     (let brokenDown = CPLUnixTimeToYMDHMS env timestamp in
      printf_0d 4 (tm_year brokenDown + 1900) @ printf_0d 2 (tm_mon brokenDown + 1)
        @ printf_0d 2 (tm_mday brokenDown) @ ''T'' @ printf_0d 2 (tm_hour brokenDown)
        @ printf_0d 2 (tm_min brokenDown) @ printf_0d 2 (tm_sec brokenDown) @ ''Z'')"

subsection \<open>The simple JSON parser (ParseSimpleJson, lines 564-593)\<close>

text \<open>
  The loop of lines 587-590 over the list of words: the index \<open>i\<close> advances by two and the
  words at \<open>i\<close> and \<open>i + 1\<close> are read with \<open>operator[]\<close>.  The number of words is below
  \<open>INT_MAX\<close> (the document is held in memory), so the index does not overflow.
\<close>

function ParseSimpleJson_loop :: "string list \<Rightarrow> int \<Rightarrow> name_values \<Rightarrow> name_values" where
  "ParseSimpleJson_loop oWords i oNameValue =
     (if i < int (length oWords) then
        ParseSimpleJson_loop oWords (i + 2)
          (SetNameValue (CPLStringList_index oWords i) (CPLStringList_index oWords (i + 1))
             oNameValue)
      else oNameValue)"
  by pat_completeness auto
termination
  by (relation "measure (\<lambda>(oWords, i, oNameValue). nat (int (length oWords) - i))") auto

declare ParseSimpleJson_loop.simps [simp del]

definition ParseSimpleJson :: "'x env \<Rightarrow> string \<Rightarrow> name_values" where
  "ParseSimpleJson env pszJson = ParseSimpleJson_loop (CSLTokenizeString2 env pszJson) 0 []"


subsection \<open>Dates (Iso8601ToUnixTime, lines 599-621)\<close>

text \<open>
  The field \<open>sscanf_iso8601\<close> of the environment is the call of \<open>sscanf\<close> with the format
  of line 607: the six numbers when six fields are read, \<open>None\<close> otherwise.
\<close>

definition Iso8601ToUnixTime :: "'x env \<Rightarrow> string \<Rightarrow> int option" where
  "Iso8601ToUnixTime env pszDT =
     (case sscanf_iso8601 env pszDT of
        Some (nYear, nMonth, nDay, nHour, nMinute, nSecond) \<Rightarrow>
          Some (CPLYMDHMSToUnixTime env
                  \<lparr> tm_year = nYear - 1900, tm_mon = nMonth - 1, tm_mday = nDay,
                    tm_hour = nHour, tm_min = nMinute, tm_sec = nSecond \<rparr>)
      | None \<Rightarrow> None)"

subsection \<open>Detection of EC2 (IsMachinePotentiallyEC2Instance, lines 627-735)\<close>

text \<open>
  The variant compiled on Linux.  \<open>EQUALN(a, b, n)\<close> compares the first \<open>n\<close> characters of two
  C strings without regard to case.
\<close>

definition EQUALN :: "string \<Rightarrow> string \<Rightarrow> nat \<Rightarrow> bool" where
  "EQUALN a b n \<longleftrightarrow> EQUAL (take n a) (take n b)"

definition IsMachinePotentiallyEC2InstanceFromLinuxHost :: "'x env \<Rightarrow> bool" where
  "IsMachinePotentiallyEC2InstanceFromLinuxHost env =
     (case file_bytes env ''/sys/hypervisor/uuid'' of
        Some content \<Rightarrow> EQUALN (c_str (take 36 content)) ''ec2'' 3
      | None \<Rightarrow>
          (case file_bytes env ''/sys/devices/virtual/dmi/id/sys_vendor'' of
             Some content \<Rightarrow> EQUALN (c_str (take 10 content)) ''Amazon EC2'' 10
           | None \<Rightarrow> True))"

definition IsMachinePotentiallyEC2Instance :: "'x env \<Rightarrow> bool" where
  "IsMachinePotentiallyEC2Instance env =
     (if \<not> CPLTestBool (with_default (CPLGetConfigOption env ''CPL_AWS_AUTODETECT_EC2'') ''YES'')
      then True
      else
        (let opt = with_default (CPLGetConfigOption env ''CPL_AWS_CHECK_HYPERVISOR_UUID'') [] in
         if opt \<noteq> [] \<and> \<not> CPLTestBool opt then True
         else IsMachinePotentiallyEC2InstanceFromLinuxHost env))"


subsection \<open>Web identity (lines 742-868)\<close>

text \<open>
  \<open>ReadAWSWebIdentityTokenFile\<close> returns its boolean result and the token it writes
  through a reference, which is left as it was when the file cannot be read.
\<close>

definition ReadAWSWebIdentityTokenFile :: "'x env \<Rightarrow> string \<Rightarrow> string \<Rightarrow> bool \<times> string" where
  "ReadAWSWebIdentityTokenFile env osWebIdentityTokenFile webIdentityToken =
     (case file_bytes env osWebIdentityTokenFile of
        None \<Rightarrow> (False, webIdentityToken)
      | Some pabyOut \<Rightarrow>
          (let t = c_str pabyOut;
               t' = (if t \<noteq> [] \<and> last t = CHR 0x0A then butlast t else t)
           in (t' \<noteq> [], t')))"

text \<open>
  The credential functions return their boolean result, the three strings they write
  through references and the static variables as they leave them.  Each of them starts
  with the test of the cache, by which it returns the cached credentials; the part that
  follows the test is the function named \<open>_refresh\<close>.
\<close>

definition cached_credentials_valid :: "'x env \<Rightarrow> globals \<Rightarrow> bool" where
  "cached_credentials_valid env g \<longleftrightarrow>
     gosGlobalAccessKeyId g \<noteq> [] \<and> time_now env < gnGlobalExpiration g - 60"

definition cached_credentials :: "globals \<Rightarrow> credentials \<Rightarrow> credentials" where
  "cached_credentials g c =
     c\<lparr> cAccessKeyId := gosGlobalAccessKeyId g,
        cSecretAccessKey := gosGlobalSecretAccessKey g,
        cSessionToken := gosGlobalSessionToken g \<rparr>"

definition GetConfigurationFromAssumeRoleWithWebIdentity_refresh ::
  "'x env \<Rightarrow> string \<Rightarrow> string \<Rightarrow> string \<Rightarrow> credentials \<Rightarrow> globals
     \<Rightarrow> bool \<times> credentials \<times> globals" where
  "GetConfigurationFromAssumeRoleWithWebIdentity_refresh env osPathForOption osRoleArnIn
       osWebIdentityTokenFileIn c g =
     (let roleArn =
            (if osRoleArnIn \<noteq> [] then osRoleArnIn
             else with_default (VSIGetPathSpecificOption env osPathForOption ''AWS_ROLE_ARN'') [])
      in
      if roleArn = [] then (False, c, g)
      else
        (let webIdentityTokenFile =
               (if osWebIdentityTokenFileIn \<noteq> [] then osWebIdentityTokenFileIn
                else with_default
                       (VSIGetPathSpecificOption env osPathForOption ''AWS_WEB_IDENTITY_TOKEN_FILE'') [])
         in
         if webIdentityTokenFile = [] then (False, c, g)
         else
           (let stsRegionalEndpoints =
                  with_default
                    (VSIGetPathSpecificOption env osPathForOption ''AWS_STS_REGIONAL_ENDPOINTS'')
                    ''regional'';
                osStsDefaultUrl =
                  (if stsRegionalEndpoints = ''regional'' then
                     ''https://sts.''
                       @ with_default (VSIGetPathSpecificOption env osPathForOption ''AWS_REGION'')
                           ''us-east-1''
                       @ ''.amazonaws.com''
                   else ''https://sts.amazonaws.com'');
                osStsRootUrl =
                  with_default (VSIGetPathSpecificOption env osPathForOption ''CPL_AWS_STS_ROOT_URL'')
                    osStsDefaultUrl;
                (bRead, webIdentityToken) =
                  ReadAWSWebIdentityTokenFile env webIdentityTokenFile []
            in
            if \<not> bRead then (False, c, g)
            else
              (let url = osStsRootUrl
                     @ ''/?Action=AssumeRoleWithWebIdentity&RoleSessionName=gdal''
                     @ ''&Version=2011-06-15&RoleArn='' @ CPLAWSURLEncode roleArn True
                     @ ''&WebIdentityToken='' @ CPLAWSURLEncode webIdentityToken True;
                   (c', osExpiration) =
                     (case CPLHTTPFetch env url [] of
                        None \<Rightarrow> (c, [])
                      | Some psResult \<Rightarrow>
                          (if nStatus psResult = 0 then
                             (case pabyData psResult of
                                None \<Rightarrow> (c, [])
                              | Some data \<Rightarrow>
                                  (case CPLParseXMLString env data of
                                     None \<Rightarrow> (c, [])
                                   | Some oTree \<Rightarrow>
                                       (case CPLGetXMLNode env oTree
                                               ''=AssumeRoleWithWebIdentityResponse.AssumeRoleWithWebIdentityResult.Credentials'' of
                                          None \<Rightarrow> (c, [])
                                        | Some psCredentials \<Rightarrow>
                                            (\<lparr> cSecretAccessKey =
                                                 with_default (CPLGetXMLValue env psCredentials ''SecretAccessKey'') [],
                                               cAccessKeyId =
                                                 with_default (CPLGetXMLValue env psCredentials ''AccessKeyId'') [],
                                               cSessionToken =
                                                 with_default (CPLGetXMLValue env psCredentials ''SessionToken'') [] \<rparr>,
                                             with_default (CPLGetXMLValue env psCredentials ''Expiration'') []))))
                           else (c, [])));
                   ok = (cAccessKeyId c' \<noteq> [] \<and> cSecretAccessKey c' \<noteq> []
                           \<and> cSessionToken c' \<noteq> []);
                   g' = (if ok then
                           (case Iso8601ToUnixTime env osExpiration of
                              None \<Rightarrow> g
                            | Some nExpirationUnix \<Rightarrow>
                                g\<lparr> gosGlobalAccessKeyId := cAccessKeyId c',
                                   gosGlobalSecretAccessKey := cSecretAccessKey c',
                                   gosGlobalSessionToken := cSessionToken c',
                                   gnGlobalExpiration := nExpirationUnix \<rparr>)
                         else g)
               in (ok, c', g')))))"

definition GetConfigurationFromAssumeRoleWithWebIdentity ::
  "'x env \<Rightarrow> bool \<Rightarrow> string \<Rightarrow> string \<Rightarrow> string \<Rightarrow> credentials \<Rightarrow> globals
     \<Rightarrow> bool \<times> credentials \<times> globals" where
  "GetConfigurationFromAssumeRoleWithWebIdentity env bForceRefresh osPathForOption osRoleArnIn
       osWebIdentityTokenFileIn c g =
     (if \<not> bForceRefresh \<and> cached_credentials_valid env g then (True, cached_credentials g c, g)
      else GetConfigurationFromAssumeRoleWithWebIdentity_refresh env osPathForOption osRoleArnIn
             osWebIdentityTokenFileIn c g)"

subsection \<open>Instance metadata (GetConfigurationFromEC2, lines 874-1058)\<close>

text \<open>
  The second request of lines 949-976, made after a time-out of the token request, only
  writes debug messages and is left out.
\<close>

definition http_ok_data :: "CPLHTTPResult option \<Rightarrow> string option" where
  "http_ok_data psResult =
     (case psResult of
        None \<Rightarrow> None
      | Some r \<Rightarrow> (if nStatus r = 0 then pabyData r else None))"

definition GetConfigurationFromEC2_refresh ::
  "'x env \<Rightarrow> string \<Rightarrow> credentials \<Rightarrow> globals \<Rightarrow> bool \<times> credentials \<times> globals" where
  "GetConfigurationFromEC2_refresh env osPathForOption c g =
     (let osEC2DefaultURL = ''http://169.254.169.254'';
          osEC2RootURL =
            with_default (VSIGetPathSpecificOption env osPathForOption ''CPL_AWS_EC2_API_ROOT_URL'')
              osEC2DefaultURL;
          osECSRelativeURI =
            with_default
              (VSIGetPathSpecificOption env osPathForOption ''AWS_CONTAINER_CREDENTIALS_RELATIVE_URI'') [];
          useECS = (osEC2RootURL = osEC2DefaultURL \<and> osECSRelativeURI \<noteq> [])
      in
      if \<not> useECS \<and> \<not> IsMachinePotentiallyEC2Instance env then (False, c, g)
      else
        (let osToken =
               (if useECS then []
                else with_default
                       (http_ok_data
                          (CPLHTTPFetch env (osEC2RootURL @ ''/latest/api/token'')
                             [(''TIMEOUT'', ''1''), (''CUSTOMREQUEST'', ''PUT''),
                              (''HEADERS'', ''X-aws-ec2-metadata-token-ttl-seconds: 10'')])) []);
             osEC2CredentialsURL = osEC2RootURL @ ''/latest/meta-data/iam/security-credentials/'';
             tokenHeader =
               (if osToken \<noteq> [] then [(''HEADERS'', ''X-aws-ec2-metadata-token: '' @ osToken)]
                else []);
             g1 = (if \<not> useECS \<and> gosIAMRole g = [] then
                     (case http_ok_data
                             (CPLHTTPFetch env osEC2CredentialsURL ((''TIMEOUT'', ''1'') # tokenHeader)) of
                        None \<Rightarrow> g
                      | Some data \<Rightarrow> g\<lparr> gosIAMRole := data \<rparr>)
                   else g)
         in
         if \<not> useECS \<and> gosIAMRole g1 = [] then (False, c, g1)
         else
           (let osURLRefreshCredentials =
                  (if useECS then ''http://169.254.170.2'' @ osECSRelativeURI
                   else osEC2CredentialsURL @ gosIAMRole g1);
                oResponse =
                  (case http_ok_data (CPLHTTPFetch env osURLRefreshCredentials tokenHeader) of
                     None \<Rightarrow> []
                   | Some osJSon \<Rightarrow> ParseSimpleJson env osJSon);
                c' = \<lparr> cSecretAccessKey = FetchNameValueDef oResponse ''SecretAccessKey'' [],
                       cAccessKeyId = FetchNameValueDef oResponse ''AccessKeyId'' [],
                       cSessionToken = FetchNameValueDef oResponse ''Token'' [] \<rparr>;
                osExpiration = FetchNameValueDef oResponse ''Expiration'' [];
                ok = (cAccessKeyId c' \<noteq> [] \<and> cSecretAccessKey c' \<noteq> []);
                g2 = (if ok then
                        (case Iso8601ToUnixTime env osExpiration of
                           None \<Rightarrow> g1
                         | Some nExpirationUnix \<Rightarrow>
                             g1\<lparr> gosGlobalAccessKeyId := cAccessKeyId c',
                                 gosGlobalSecretAccessKey := cSecretAccessKey c',
                                 gosGlobalSessionToken := cSessionToken c',
                                 gnGlobalExpiration := nExpirationUnix \<rparr>)
                      else g1)
            in (ok, c', g2))))"

definition GetConfigurationFromEC2 ::
  "'x env \<Rightarrow> bool \<Rightarrow> string \<Rightarrow> credentials \<Rightarrow> globals \<Rightarrow> bool \<times> credentials \<times> globals" where
  "GetConfigurationFromEC2 env bForceRefresh osPathForOption c g =
     (if \<not> bForceRefresh \<and> cached_credentials_valid env g then (True, cached_credentials g c, g)
      else GetConfigurationFromEC2_refresh env osPathForOption c g)"


subsection \<open>The configuration files (lines 1065-1318)\<close>

text \<open>
  \<open>UpdateAndWarnIfInconsistent\<close> returns the value of \<open>osVal\<close> as it leaves it and the
  warnings it emits.
\<close>

definition UpdateAndWarnIfInconsistent ::
  "string \<Rightarrow> string \<Rightarrow> string \<Rightarrow> string \<Rightarrow> string \<Rightarrow> string \<times> report list" where
  "UpdateAndWarnIfInconsistent pszKeyword osVal osNewVal osCredentials osConfig =
     (if osVal = [] then (osNewVal, [])
      else if osVal \<noteq> osNewVal then
        (osVal,
         [CPLError CE_Warning CPLE_AppDefined
            (pszKeyword @ '' defined in both '' @ osCredentials @ '' and '' @ osConfig
               @ ''. The one of '' @ osCredentials @ '' will be used'')])
      else (osVal, []))"

text \<open>
  The files are read line by line (\<open>CPLReadLineL\<close>); \<open>file_lines\<close> yields the lines of a
  file.  \<open>CPLParseNameValue\<close> (cpl\_string.h) is not among the sources: the field of the
  environment yields the key and the value of a line when both pointers are non-null.
\<close>

fun ReadAWSCredentials_loop ::
  "'x env \<Rightarrow> string \<Rightarrow> string list \<Rightarrow> bool \<Rightarrow> credentials \<Rightarrow> credentials" where
  "ReadAWSCredentials_loop env osBracketedProfile [] bInProfile c = c"
| "ReadAWSCredentials_loop env osBracketedProfile (pszLine # rest) bInProfile c =
     (if take 1 pszLine = ''['' then
        (if bInProfile then c
         else ReadAWSCredentials_loop env osBracketedProfile rest
                (pszLine = osBracketedProfile) c)
      else if bInProfile then
        ReadAWSCredentials_loop env osBracketedProfile rest bInProfile
          (case CPLParseNameValue env pszLine of
             None \<Rightarrow> c
           | Some (pszKey, pszValue) \<Rightarrow>
               (if EQUAL pszKey ''aws_access_key_id'' then c\<lparr> cAccessKeyId := pszValue \<rparr>
                else if EQUAL pszKey ''aws_secret_access_key'' then c\<lparr> cSecretAccessKey := pszValue \<rparr>
                else if EQUAL pszKey ''aws_session_token'' then c\<lparr> cSessionToken := pszValue \<rparr>
                else c))
      else ReadAWSCredentials_loop env osBracketedProfile rest bInProfile c)"

definition empty_credentials :: credentials where
  "empty_credentials = \<lparr> cSecretAccessKey = [], cAccessKeyId = [], cSessionToken = [] \<rparr>"

definition ReadAWSCredentials :: "'x env \<Rightarrow> string \<Rightarrow> string \<Rightarrow> bool \<times> credentials" where
  "ReadAWSCredentials env osProfile osCredentials =
     (let c = (case file_lines env osCredentials of
                 None \<Rightarrow> empty_credentials
               | Some ls \<Rightarrow>
                   ReadAWSCredentials_loop env (''['' @ osProfile @ '']'') ls False empty_credentials)
      in (cSecretAccessKey c \<noteq> [] \<and> cAccessKeyId c \<noteq> [], c))"

text \<open>
  The strings, other than the three of the credentials, that
  \<open>GetConfigurationFromAWSConfigFiles\<close> writes through references.
\<close>

record aws_config =
  cfRegion :: string
  cfCredentials :: string
  cfRoleArn :: string
  cfSourceProfile :: string
  cfExternalId :: string
  cfMFASerial :: string
  cfRoleSessionName :: string
  cfWebIdentityTokenFile :: string

definition empty_aws_config :: aws_config where
  "empty_aws_config =
     \<lparr> cfRegion = [], cfCredentials = [], cfRoleArn = [], cfSourceProfile = [],
       cfExternalId = [], cfMFASerial = [], cfRoleSessionName = [],
       cfWebIdentityTokenFile = [] \<rparr>"

text \<open>The body of the loop over the lines of the config file, for a line with a key and a value (lines 1247-1298).\<close>

definition config_key_value ::
  "string \<Rightarrow> string \<Rightarrow> string \<Rightarrow> credentials \<times> aws_config \<times> report list
     \<Rightarrow> credentials \<times> aws_config \<times> report list" where
  "config_key_value osConfig pszKey pszValue st =
     (case st of (c, cf, rs) \<Rightarrow>
        if EQUAL pszKey ''aws_access_key_id'' then
          (let (v, w) = UpdateAndWarnIfInconsistent pszKey (cAccessKeyId c) pszValue
                          (cfCredentials cf) osConfig
           in (c\<lparr> cAccessKeyId := v \<rparr>, cf, rs @ w))
        else if EQUAL pszKey ''aws_secret_access_key'' then
          (let (v, w) = UpdateAndWarnIfInconsistent pszKey (cSecretAccessKey c) pszValue
                          (cfCredentials cf) osConfig
           in (c\<lparr> cSecretAccessKey := v \<rparr>, cf, rs @ w))
        else if EQUAL pszKey ''aws_session_token'' then
          (let (v, w) = UpdateAndWarnIfInconsistent pszKey (cSessionToken c) pszValue
                          (cfCredentials cf) osConfig
           in (c\<lparr> cSessionToken := v \<rparr>, cf, rs @ w))
        else if EQUAL pszKey ''region'' then (c, cf\<lparr> cfRegion := pszValue \<rparr>, rs)
        else if pszKey = ''role_arn'' then (c, cf\<lparr> cfRoleArn := pszValue \<rparr>, rs)
        else if pszKey = ''source_profile'' then (c, cf\<lparr> cfSourceProfile := pszValue \<rparr>, rs)
        else if pszKey = ''external_id'' then (c, cf\<lparr> cfExternalId := pszValue \<rparr>, rs)
        else if pszKey = ''mfa_serial'' then (c, cf\<lparr> cfMFASerial := pszValue \<rparr>, rs)
        else if pszKey = ''role_session_name'' then (c, cf\<lparr> cfRoleSessionName := pszValue \<rparr>, rs)
        else if pszKey = ''web_identity_token_file'' then
          (c, cf\<lparr> cfWebIdentityTokenFile := pszValue \<rparr>, rs)
        else (c, cf, rs))"

fun config_loop ::
  "'x env \<Rightarrow> string \<Rightarrow> string \<Rightarrow> string \<Rightarrow> string list \<Rightarrow> bool
     \<Rightarrow> credentials \<times> aws_config \<times> report list \<Rightarrow> credentials \<times> aws_config \<times> report list" where
  "config_loop env osConfig osBracketedProfile osBracketedProfileProfile [] bInProfile st = st"
| "config_loop env osConfig osBracketedProfile osBracketedProfileProfile (pszLine # rest)
       bInProfile st =
     (if take 1 pszLine = ''['' then
        (if bInProfile then st
         else config_loop env osConfig osBracketedProfile osBracketedProfileProfile rest
                (pszLine = osBracketedProfile \<or> pszLine = osBracketedProfileProfile) st)
      else if bInProfile then
        config_loop env osConfig osBracketedProfile osBracketedProfileProfile rest bInProfile
          (case CPLParseNameValue env pszLine of
             None \<Rightarrow> st
           | Some (pszKey, pszValue) \<Rightarrow> config_key_value osConfig pszKey pszValue st)
      else config_loop env osConfig osBracketedProfile osBracketedProfileProfile rest
             bInProfile st)"

text \<open>
  \<open>GetConfigurationFromAWSConfigFiles\<close> (lines 1146-1318), in the variant that is not
  compiled for Windows.  The profile is \<open>None\<close> for a null pointer.  The function returns
  its result, the credentials, the other strings and the warnings.
\<close>

definition AWSConfig_osProfile :: "'x env \<Rightarrow> string \<Rightarrow> string option \<Rightarrow> string" where
  "AWSConfig_osProfile env osPathForOption pszProfileOri =
     (let pszProfile =
            (case pszProfileOri of
               Some p \<Rightarrow> p
             | None \<Rightarrow>
                 (let p = with_default
                            (VSIGetPathSpecificOption env osPathForOption ''AWS_DEFAULT_PROFILE'') []
                  in if p = [] then
                       with_default (VSIGetPathSpecificOption env osPathForOption ''AWS_PROFILE'') []
                     else p))
      in if pszProfile \<noteq> [] then pszProfile else ''default'')"

definition AWSConfig_osDotAws :: "'x env \<Rightarrow> string" where
  "AWSConfig_osDotAws env = with_default (CPLGetConfigOption env ''HOME'') [] @ ''/'' @ ''.aws''"

definition AWSConfig_osCredentials :: "'x env \<Rightarrow> string \<Rightarrow> string" where
  "AWSConfig_osCredentials env osPathForOption =
     with_default (VSIGetPathSpecificOption env osPathForOption ''CPL_AWS_CREDENTIALS_FILE'')
       (AWSConfig_osDotAws env @ ''/'' @ ''credentials'')"

definition AWSConfig_osConfig :: "'x env \<Rightarrow> string \<Rightarrow> string" where
  "AWSConfig_osConfig env osPathForOption =
     with_default (VSIGetPathSpecificOption env osPathForOption ''AWS_CONFIG_FILE'')
       (AWSConfig_osDotAws env @ ''/'' @ ''config'')"

definition GetConfigurationFromAWSConfigFiles ::
  "'x env \<Rightarrow> string \<Rightarrow> string option \<Rightarrow> aws_config
     \<Rightarrow> bool \<times> credentials \<times> aws_config \<times> report list" where
  "GetConfigurationFromAWSConfigFiles env osPathForOption pszProfileOri cf0 =
     (let osProfile = AWSConfig_osProfile env osPathForOption pszProfileOri;
          osCredentials = AWSConfig_osCredentials env osPathForOption;
          c0 = snd (ReadAWSCredentials env osProfile osCredentials);
          pszAWSConfigFileEnv = VSIGetPathSpecificOption env osPathForOption ''AWS_CONFIG_FILE'';
          osConfig = AWSConfig_osConfig env osPathForOption;
          cf1 = cf0\<lparr> cfCredentials := osCredentials \<rparr>;
          (c, cf, rs) =
            (case file_lines env osConfig of
               Some ls \<Rightarrow>
                 config_loop env osConfig (''['' @ osProfile @ '']'')
                   (''[profile '' @ osProfile @ '']'') ls False (c0, cf1, [])
             | None \<Rightarrow>
                 (c0, cf1,
                  (case pszAWSConfigFileEnv of
                     None \<Rightarrow> []
                   | Some f \<Rightarrow>
                       (if f \<noteq> [] then
                          [CPLError CE_Warning CPLE_AppDefined
                             (f @ '' does not exist or cannot be open'')]
                        else []))))
      in ((cAccessKeyId c \<noteq> [] \<and> cSecretAccessKey c \<noteq> []) \<or>
          (cfRoleArn cf \<noteq> [] \<and> cfSourceProfile cf \<noteq> []) \<or>
          (pszProfileOri \<noteq> None \<and> cfRoleArn cf \<noteq> [] \<and> cfWebIdentityTokenFile cf \<noteq> []),
          c, cf, rs))"

subsection \<open>Assumed roles (lines 1327-1503)\<close>

text \<open>
  \<open>GetTemporaryCredentialsForRole\<close> returns its result, the three temporary strings and the
  expiration, which it writes through references and leaves as they were when the response
  has no credentials.  The query string is built from a sorted map (lines 1350-1372).
\<close>

fun STS_QueryString_loop :: "std_map \<Rightarrow> string \<Rightarrow> string" where
  "STS_QueryString_loop [] osQueryString = osQueryString"
| "STS_QueryString_loop ((first, second) # m) osQueryString =
     STS_QueryString_loop m
       ((if osQueryString = [] then osQueryString @ ''?'' else osQueryString @ ''&'')
          @ first @ ''='' @ CPLAWSURLEncode second True)"

definition GetTemporaryCredentialsForRole ::
  "'x env \<Rightarrow> string \<Rightarrow> string \<Rightarrow> string \<Rightarrow> string \<Rightarrow> credentials \<Rightarrow> credentials \<Rightarrow> string
     \<Rightarrow> bool \<times> credentials \<times> string" where
  "GetTemporaryCredentialsForRole env osRoleArn osExternalId osMFASerial osRoleSessionName
       source temp osExpiration =
     (let osXAMZDate0 = with_default (CPLGetConfigOption env ''AWS_TIMESTAMP'') [];
          osXAMZDate = (if osXAMZDate0 = [] then CPLGetAWS_SIGN4_Timestamp env (time_now env)
                        else osXAMZDate0);
          osVerb = ''GET'';
          osService = ''sts'';
          osRegion = with_default (CPLGetConfigOption env ''AWS_STS_REGION'') ''us-east-1'';
          osHost = with_default (CPLGetConfigOption env ''AWS_STS_ENDPOINT'') ''sts.amazonaws.com'';
          oMap0 = map_assign ''RoleSessionName''
                    (if osRoleSessionName \<noteq> [] then osRoleSessionName
                     else with_default (CPLGetConfigOption env ''AWS_ROLE_SESSION_NAME'')
                            ''GDAL-session'')
                    (map_assign ''RoleArn'' osRoleArn
                       (map_assign ''Action'' ''AssumeRole''
                          (map_assign ''Version'' ''2011-06-15'' [])));
          oMap1 = (if osExternalId \<noteq> [] then map_assign ''ExternalId'' osExternalId oMap0
                   else oMap0);
          oMap = (if osMFASerial \<noteq> [] then map_assign ''SerialNumber'' osMFASerial oMap1
                  else oMap1);
          osQueryString = STS_QueryString_loop oMap [];
          osCanonicalQueryString = drop 1 osQueryString;
          osAuthorization =
            CPLGetAWS_SIGN4_Authorization (CPL_SHA256 env) (CPL_HMAC_SHA256 env)
              (cSecretAccessKey source) (cAccessKeyId source) (cSessionToken source)
              osRegion [] osService osVerb [] osHost ''/'' osCanonicalQueryString
              (CPLGetLowerCaseHexSHA256 (CPL_SHA256 env) []) False osXAMZDate;
          bUseHTTPS = CPLTestBool (with_default (CPLGetConfigOption env ''AWS_HTTPS'') ''YES'');
          headers =
            (if cSessionToken source \<noteq> []
             then ''X-Amz-Security-Token: '' @ cSessionToken source @ [CHR 0x0D, CHR 0x0A]
             else [])
            @ ''X-Amz-Date: '' @ osXAMZDate @ [CHR 0x0D, CHR 0x0A]
            @ ''Authorization: '' @ osAuthorization;
          osURL = (if bUseHTTPS then ''https://'' else ''http://'') @ osHost @ ''/'' @ osQueryString
      in
      case http_ok_data (CPLHTTPFetch env osURL [(''HEADERS'', headers)]) of
        None \<Rightarrow> (False, temp, osExpiration)
      | Some data \<Rightarrow>
          (case CPLParseXMLString env data of
             None \<Rightarrow> (False, temp, osExpiration)
           | Some oTree \<Rightarrow>
               (case CPLGetXMLNode env oTree ''=AssumeRoleResponse.AssumeRoleResult.Credentials'' of
                  None \<Rightarrow> (False, temp, osExpiration)
                | Some psCredentials \<Rightarrow>
                    (True,
                     \<lparr> cSecretAccessKey =
                         with_default (CPLGetXMLValue env psCredentials ''SecretAccessKey'') [],
                       cAccessKeyId =
                         with_default (CPLGetXMLValue env psCredentials ''AccessKeyId'') [],
                       cSessionToken =
                         with_default (CPLGetXMLValue env psCredentials ''SessionToken'') [] \<rparr>,
                     with_default (CPLGetXMLValue env psCredentials ''Expiration'') []))))"

text \<open>
  \<open>GetOrRefreshTemporaryCredentialsForRole\<close> (lines 1436-1503) returns its result, the
  credentials, the region and the static variables.
\<close>

definition GetOrRefreshTemporaryCredentialsForRole_refresh ::
  "'x env \<Rightarrow> bool \<Rightarrow> credentials \<Rightarrow> string \<Rightarrow> globals
     \<Rightarrow> bool \<times> credentials \<times> string \<times> globals" where
  "GetOrRefreshTemporaryCredentialsForRole_refresh env bForceRefresh c osRegion g =
     (let (bWeb, c1, g1) =
            (if gosRoleArnWebIdentity g \<noteq> [] then
               (let (ok, cw, gw) =
                      GetConfigurationFromAssumeRoleWithWebIdentity env bForceRefresh []
                        (gosRoleArnWebIdentity g) (gosWebIdentityTokenFile g) c g
                in if ok then
                     (True, cw,
                      gw\<lparr> gosSourceProfileSecretAccessKey := cSecretAccessKey cw,
                          gosSourceProfileAccessKeyId := cAccessKeyId cw,
                          gosSourceProfileSessionToken := cSessionToken cw \<rparr>)
                   else (False, cw, gw))
             else (True, c, g))
      in
      if \<not> bWeb then (False, c1, osRegion, g1)
      else
        (let g2 = g1\<lparr> gosGlobalSecretAccessKey := [], gosGlobalAccessKeyId := [],
                       gosGlobalSessionToken := [] \<rparr>;
             (bRet, temp, osExpiration) =
               GetTemporaryCredentialsForRole env (gosRoleArn g2) (gosExternalId g2)
                 (gosMFASerial g2) (gosRoleSessionName g2)
                 \<lparr> cSecretAccessKey = gosSourceProfileSecretAccessKey g2,
                   cAccessKeyId = gosSourceProfileAccessKeyId g2,
                   cSessionToken = gosSourceProfileSessionToken g2 \<rparr>
                 \<lparr> cSecretAccessKey = gosGlobalSecretAccessKey g2,
                   cAccessKeyId = gosGlobalAccessKeyId g2,
                   cSessionToken = gosGlobalSessionToken g2 \<rparr>
                 []
         in
         if bRet then
           (let g3 = g2\<lparr> gosGlobalSecretAccessKey := cSecretAccessKey temp,
                          gosGlobalAccessKeyId := cAccessKeyId temp,
                          gosGlobalSessionToken := cSessionToken temp,
                          gnGlobalExpiration :=
                            with_default (Iso8601ToUnixTime env osExpiration)
                              (gnGlobalExpiration g2) \<rparr>
            in (True, cached_credentials g3 c1, gosRegion g3, g3))
         else (False, c1, osRegion, g2)))"

definition GetOrRefreshTemporaryCredentialsForRole ::
  "'x env \<Rightarrow> bool \<Rightarrow> credentials \<Rightarrow> string \<Rightarrow> globals
     \<Rightarrow> bool \<times> credentials \<times> string \<times> globals" where
  "GetOrRefreshTemporaryCredentialsForRole env bForceRefresh c osRegion g =
     (if \<not> bForceRefresh \<and> cached_credentials_valid env g
      then (True, cached_credentials g c, gosRegion g, g)
      else GetOrRefreshTemporaryCredentialsForRole_refresh env bForceRefresh c osRegion g)"


subsection \<open>The provider chain (GetConfiguration, lines 1509-1727)\<close>

text \<open>
  The options \<open>papszOptions\<close> are a list of name/value pairs.  The function returns its
  result, the credentials, the region, the source of the credentials, the static variables
  and the errors and warnings.
\<close>

definition option_or_path ::
  "'x env \<Rightarrow> name_values \<Rightarrow> string \<Rightarrow> string \<Rightarrow> string \<Rightarrow> string" where
  "option_or_path env papszOptions osPathForOption key def =
     FetchNameValueDef papszOptions key
       (with_default (VSIGetPathSpecificOption env osPathForOption key) def)"

text \<open>Lines 1591-1691: the profile names a role to assume.\<close>

definition GetConfiguration_assume_role ::
  "'x env \<Rightarrow> string \<Rightarrow> credentials \<Rightarrow> aws_config \<Rightarrow> globals \<Rightarrow> report list
     \<Rightarrow> bool \<times> credentials \<times> string \<times> AWSCredentialsSource \<times> globals \<times> report list" where
  "GetConfiguration_assume_role env osPathForOption c cf g rs =
     (let (c1, cf1, g1, rs1) =
            (if cfSourceProfile cf \<noteq> [] then
               (let (okSP, cSP, cfSP, rsSP) =
                      GetConfigurationFromAWSConfigFiles env osPathForOption
                        (Some (cfSourceProfile cf))
                        (empty_aws_config\<lparr> cfWebIdentityTokenFile := cfWebIdentityTokenFile cf \<rparr>);
                    cf' = cf\<lparr> cfWebIdentityTokenFile := cfWebIdentityTokenFile cfSP \<rparr>
                in if okSP then
                     (let (okW, cW, gW) =
                            GetConfigurationFromAssumeRoleWithWebIdentity env False osPathForOption
                              (cfRoleArn cfSP) (cfWebIdentityTokenFile cf') c g
                      in if okW then
                           (cW, cf',
                            gW\<lparr> gosRoleArnWebIdentity := cfRoleArn cfSP,
                                gosWebIdentityTokenFile := cfWebIdentityTokenFile cf' \<rparr>,
                            rs @ rsSP)
                         else (cW, cf', gW, rs @ rsSP))
                   else (c, cf', g, rs @ rsSP))
             else (c, cf, g, rs));
          (okRead, c2) =
            (if gosRoleArnWebIdentity g1 = []
             then ReadAWSCredentials env (cfSourceProfile cf1) (cfCredentials cf1)
             else (True, c1))
      in
      if \<not> okRead then
        (False, c2, cfRegion cf1, REGULAR, g1,
         rs1 @ [VSIError VSIE_AWSInvalidCredentials
                  (''Cannot retrieve credentials for source profile '' @ cfSourceProfile cf1)])
      else
        (let (bRet, temp, osExpiration) =
               GetTemporaryCredentialsForRole env (cfRoleArn cf1) (cfExternalId cf1)
                 (cfMFASerial cf1) (cfRoleSessionName cf1) c2 empty_credentials []
         in
         if bRet then
           (True, temp, cfRegion cf1, ASSUMED_ROLE,
            g1\<lparr> gnGlobalExpiration :=
                   with_default (Iso8601ToUnixTime env osExpiration) (gnGlobalExpiration g1),
                gosRoleArn := cfRoleArn cf1,
                gosExternalId := cfExternalId cf1,
                gosMFASerial := cfMFASerial cf1,
                gosRoleSessionName := cfRoleSessionName cf1,
                gosSourceProfileSecretAccessKey := cSecretAccessKey c2,
                gosSourceProfileAccessKeyId := cAccessKeyId c2,
                gosSourceProfileSessionToken := cSessionToken c2,
                gosGlobalAccessKeyId := cAccessKeyId temp,
                gosGlobalSecretAccessKey := cSecretAccessKey temp,
                gosGlobalSessionToken := cSessionToken temp,
                gosRegion := cfRegion cf1 \<rparr>,
            rs1)
         else (False, c2, cfRegion cf1, REGULAR, g1, rs1)))"

text \<open>Lines 1697-1726: web identity from the options, then the instance metadata.\<close>

definition GetConfiguration_last_resorts ::
  "'x env \<Rightarrow> string \<Rightarrow> credentials \<Rightarrow> aws_config \<Rightarrow> globals \<Rightarrow> report list
     \<Rightarrow> bool \<times> credentials \<times> string \<times> AWSCredentialsSource \<times> globals \<times> report list" where
  "GetConfiguration_last_resorts env osPathForOption c cf g rs =
     (let (okW, cW, gW) =
            (if CPLTestBool (with_default (CPLGetConfigOption env ''CPL_AWS_WEB_IDENTITY_ENABLE'') ''YES'')
             then GetConfigurationFromAssumeRoleWithWebIdentity env False osPathForOption [] [] c g
             else (False, c, g))
      in
      if okW then (True, cW, cfRegion cf, WEB_IDENTITY, gW, rs)
      else
        (let (okE, cE, gE) = GetConfigurationFromEC2 env False osPathForOption cW gW in
         if okE then (True, cE, cfRegion cf, EC2, gE, rs)
         else
           (False, cE, cfRegion cf, REGULAR, gE,
            rs @ [VSIError VSIE_AWSInvalidCredentials
                    (''AWS_SECRET_ACCESS_KEY and AWS_NO_SIGN_REQUEST configuration ''
                       @ ''options not defined, and '' @ cfCredentials cf @ '' not filled'')])))"

definition GetConfiguration ::
  "'x env \<Rightarrow> string \<Rightarrow> name_values \<Rightarrow> credentials \<Rightarrow> globals
     \<Rightarrow> bool \<times> credentials \<times> string \<times> AWSCredentialsSource \<times> globals \<times> report list" where
  "GetConfiguration env osPathForOption papszOptions c0 g =
     (let osRegion = option_or_path env papszOptions osPathForOption ''AWS_REGION'' ''us-east-1'' in
      if CPLTestBool
           (with_default (VSIGetPathSpecificOption env osPathForOption ''AWS_NO_SIGN_REQUEST'') ''NO'')
      then (True, empty_credentials, osRegion, REGULAR, g, [])
      else
        (let c1 = c0\<lparr> cSecretAccessKey :=
                       option_or_path env papszOptions osPathForOption ''AWS_SECRET_ACCESS_KEY'' [] \<rparr>
         in
         if cSecretAccessKey c1 \<noteq> [] then
           (let c2 = c1\<lparr> cAccessKeyId :=
                          option_or_path env papszOptions osPathForOption ''AWS_ACCESS_KEY_ID'' [] \<rparr>
            in
            if cAccessKeyId c2 = [] then
              (False, c2, osRegion, REGULAR, g,
               [VSIError VSIE_AWSInvalidCredentials
                  ''AWS_ACCESS_KEY_ID configuration option not defined''])
            else
              (True,
               c2\<lparr> cSessionToken :=
                     option_or_path env papszOptions osPathForOption ''AWS_SESSION_TOKEN'' [] \<rparr>,
               osRegion, REGULAR, g, []))
         else
           (let bAssumedRole = (gosRoleArn g \<noteq> []);
                (okR, cR, osRegionR, gR) =
                  (if bAssumedRole
                   then GetOrRefreshTemporaryCredentialsForRole env False c1 osRegion g
                   else (False, c1, osRegion, g))
            in
            if okR then (True, cR, osRegionR, ASSUMED_ROLE, gR, [])
            else
              (let (okF, cF, cf, rsF) =
                     GetConfigurationFromAWSConfigFiles env osPathForOption None
                       (empty_aws_config\<lparr> cfRegion := osRegionR \<rparr>)
               in
               if okF then
                 (if cSecretAccessKey cF = [] \<and> cfRoleArn cf \<noteq> []
                  then GetConfiguration_assume_role env osPathForOption cF cf gR rsF
                  else (True, cF, cfRegion cf, REGULAR, gR, rsF))
               else GetConfiguration_last_resorts env osPathForOption cF cf gR rsF))))"

subsection \<open>Construction of a handle (BuildFromURI, lines 1769-1826)\<close>

text \<open>
  The URI is \<open>None\<close> for a null pointer.  The function returns the new handle, or \<open>None\<close>
  for a null pointer, with the static variables and the errors and warnings.
\<close>

definition BuildFromURI ::
  "'x env \<Rightarrow> string option \<Rightarrow> string \<Rightarrow> bool \<Rightarrow> name_values \<Rightarrow> globals
     \<Rightarrow> VSIS3HandleHelper option \<times> globals \<times> report list" where
  "BuildFromURI env pszURI pszFSPrefix bAllowNoObject papszOptions g =
     (let osPathForOption = ''/vsis3/'' @ with_default pszURI [];
          (ok, c, osRegion0, eCredentialsSource, g', rs) =
            GetConfiguration env osPathForOption papszOptions empty_credentials g
      in
      if \<not> ok then (None, g', rs)
      else
        (let osDefaultRegion =
               option_or_path env papszOptions osPathForOption ''AWS_DEFAULT_REGION'' [];
             osRegion = (if osDefaultRegion \<noteq> [] then osDefaultRegion else osRegion0);
             osEndpoint =
               with_default (VSIGetPathSpecificOption env osPathForOption ''AWS_S3_ENDPOINT'')
                 ''s3.amazonaws.com'';
             osRequestPayer =
               with_default (VSIGetPathSpecificOption env osPathForOption ''AWS_REQUEST_PAYER'') [];
             (okB, osBucket, osObjectKey, rsB) =
               (if pszURI \<noteq> None \<and> pszURI \<noteq> Some []
                then GetBucketAndObjectKey (with_default pszURI []) pszFSPrefix bAllowNoObject []
                else (True, [], [], []))
         in
         if \<not> okB then (None, g', rs @ rsB)
         else
           (let bUseHTTPS =
                  CPLTestBool
                    (with_default (VSIGetPathSpecificOption env osPathForOption ''AWS_HTTPS'') ''YES'');
                bIsValidNameForVirtualHosting = (string_find osBucket (CHR ''.'') = None);
                bUseVirtualHosting =
                  CPLTestBool
                    (option_or_path env papszOptions osPathForOption ''AWS_VIRTUAL_HOSTING''
                       (if bIsValidNameForVirtualHosting then ''TRUE'' else ''FALSE''))
            in
            (Some (VSIS3HandleHelper_new (cSecretAccessKey c) (cAccessKeyId c) (cSessionToken c)
                     osEndpoint osRegion osRequestPayer osBucket osObjectKey bUseHTTPS
                     bUseVirtualHosting eCredentialsSource),
             g', rs @ rsB))))"

subsection \<open>Reaction to an error of the server (CanRestartOnError, lines 2017-2168)\<close>

text \<open>
  The XML functions (cpl\_minixml.h) are fields of the environment; \<open>CPLGetXMLValue\<close> is
  called with a null default and yields \<open>None\<close> for it.  The headers are \<open>None\<close> for a null
  pointer.  The function returns its result, the handle as it leaves it, the value it
  writes to \<open>*pbUpdateMap\<close> (when that pointer is not null) and the errors it reports.
\<close>

definition endpoint_has_bucket_prefix :: "string \<Rightarrow> string \<Rightarrow> bool" where
  "endpoint_has_bucket_prefix pszEndpoint osBucket \<longleftrightarrow>
     take (length osBucket) pszEndpoint = osBucket \<and>
     take 1 (drop (length osBucket) pszEndpoint) = ''.''"

definition malformed_response :: "bool \<Rightarrow> string \<Rightarrow> report list" where
  "malformed_response bSetError pszErrorMsg =
     (if bSetError then [VSIError VSIE_AWSError (''Malformed AWS XML response: '' @ pszErrorMsg)]
      else [])"

definition CanRestartOnError ::
  "'x env \<Rightarrow> string \<Rightarrow> string option \<Rightarrow> bool \<Rightarrow> VSIS3HandleHelper
     \<Rightarrow> bool \<times> VSIS3HandleHelper \<times> bool \<times> report list" where
  "CanRestartOnError env pszErrorMsg pszHeaders bSetError h =
     (if \<not> STARTS_WITH pszErrorMsg ''<?xml'' \<and> \<not> STARTS_WITH pszErrorMsg ''<Error>'' then
        (False, h, True,
         if bSetError then [VSIError VSIE_AWSError (''Invalid AWS response: '' @ pszErrorMsg)]
         else [])
      else
        (case CPLParseXMLString env pszErrorMsg of
           None \<Rightarrow> (False, h, True, malformed_response bSetError pszErrorMsg)
         | Some psTree \<Rightarrow>
             (case CPLGetXMLValue env psTree ''=Error.Code'' of
                None \<Rightarrow> (False, h, True, malformed_response bSetError pszErrorMsg)
              | Some pszCode \<Rightarrow>
                  if EQUAL pszCode ''AuthorizationHeaderMalformed'' then
                    (case CPLGetXMLValue env psTree ''=Error.Region'' of
                       None \<Rightarrow> (False, h, True, malformed_response bSetError pszErrorMsg)
                     | Some pszRegion \<Rightarrow> (True, SetRegion pszRegion h, True, []))
                  else if EQUAL pszCode ''PermanentRedirect'' \<or> EQUAL pszCode ''TemporaryRedirect''
                  then
                    (let bIsTemporaryRedirect = EQUAL pszCode ''TemporaryRedirect'' in
                     case CPLGetXMLValue env psTree ''=Error.Endpoint'' of
                       None \<Rightarrow> (False, h, True, malformed_response bSetError pszErrorMsg)
                     | Some pszEndpoint \<Rightarrow>
                         if m_bUseVirtualHosting h
                              \<and> \<not> endpoint_has_bucket_prefix pszEndpoint (m_osBucket h)
                         then (False, h, True, malformed_response bSetError pszErrorMsg)
                         else if \<not> m_bUseVirtualHosting h
                              \<and> endpoint_has_bucket_prefix pszEndpoint (m_osBucket h)
                         then
                           (let pszRegionPtr =
                                  (case pszHeaders of
                                     None \<Rightarrow> None
                                   | Some hs \<Rightarrow>
                                       map_option (\<lambda>n. drop (n + length ''x-amz-bucket-region: '') hs)
                                         (strstr hs ''x-amz-bucket-region: ''))
                            in
                            if CHR ''.'' \<in> set (m_osBucket h) \<and> pszRegionPtr \<noteq> None then
                              (let osRegion0 = with_default pszRegionPtr [];
                                   osRegion =
                                     (case string_find osRegion0 (CHR 0x0D) of
                                        None \<Rightarrow> osRegion0
                                      | Some nPos \<Rightarrow> CPLString_resize nPos osRegion0)
                               in (True,
                                   SetRegion osRegion
                                     (SetEndpoint (''s3.'' @ osRegion @ ''.amazonaws.com'') h),
                                   \<not> bIsTemporaryRedirect, []))
                            else
                              (let h1 = h\<lparr> m_bUseVirtualHosting := True \<rparr> in
                               (True,
                                SetEndpoint (drop (length (m_osBucket h1) + 1) pszEndpoint) h1,
                                \<not> bIsTemporaryRedirect, [])))
                         else
                           (True,
                            SetEndpoint
                              (if m_bUseVirtualHosting h
                               then drop (length (m_osBucket h) + 1) pszEndpoint
                               else pszEndpoint) h,
                            \<not> bIsTemporaryRedirect, []))
                  else
                    (False, h, True,
                     if bSetError then
                       (case CPLGetXMLValue env psTree ''=Error.Message'' of
                          None \<Rightarrow> [VSIError VSIE_AWSError pszErrorMsg]
                        | Some pszMessage \<Rightarrow>
                            (if EQUAL pszCode ''AccessDenied'' then
                               [VSIError VSIE_AWSAccessDenied pszMessage]
                             else if EQUAL pszCode ''NoSuchBucket'' then
                               [VSIError VSIE_AWSBucketNotFound pszMessage]
                             else if EQUAL pszCode ''NoSuchKey'' then
                               [VSIError VSIE_AWSObjectNotFound pszMessage]
                             else if EQUAL pszCode ''SignatureDoesNotMatch'' then
                               [VSIError VSIE_AWSSignatureDoesNotMatch pszMessage]
                             else [VSIError VSIE_AWSError pszMessage]))
                     else []))))"


subsection \<open>An environment for the examples\<close>

text \<open>
  The environment in which no option is set, no file can be opened and every request
  fails; an XML tree is the list of its paths and values.  The examples override the
  fields they need.
\<close>

definition null_env :: "(string \<times> string) list env" where
  "null_env =
     \<lparr> VSIGetPathSpecificOption = (\<lambda>path key. None),
       CPLGetConfigOption = (\<lambda>key. None),
       time_now = 0,
       CPLHTTPFetch = (\<lambda>url options. None),
       file_lines = (\<lambda>name. None),
       file_bytes = (\<lambda>name. None),
       CPLParseXMLString = (\<lambda>text. None),
       CPLGetXMLNode = (\<lambda>node path. None),
       CPLGetXMLValue = (\<lambda>node path. map_of node path),
       CPL_SHA256 = (\<lambda>message. []),
       CPL_HMAC_SHA256 = (\<lambda>key message. []),
       CPLParseNameValue = (\<lambda>line. None),
       sscanf_iso8601 = (\<lambda>text. None),
       CPLYMDHMSToUnixTime = (\<lambda>t. 0),
       CPLUnixTimeToYMDHMS =
         (\<lambda>t. \<lparr> tm_year = 0, tm_mon = 0, tm_mday = 0, tm_hour = 0, tm_min = 0, tm_sec = 0 \<rparr>),
       CSLTokenizeString2 = (\<lambda>text. []) \<rparr>"

definition null_globals :: globals where
  "null_globals =
     \<lparr> gosIAMRole = [], gosGlobalAccessKeyId = [], gosGlobalSecretAccessKey = [],
       gosGlobalSessionToken = [], gnGlobalExpiration = 0, gosRegion = [], gosRoleArn = [],
       gosExternalId = [], gosMFASerial = [], gosRoleSessionName = [],
       gosSourceProfileAccessKeyId = [], gosSourceProfileSecretAccessKey = [],
       gosSourceProfileSessionToken = [], gosRoleArnWebIdentity = [],
       gosWebIdentityTokenFile = [] \<rparr>"


text \<open>An environment whose XML parser yields a given tree, and a handle in path style.\<close>

definition xml_env :: "(string \<times> string) list \<Rightarrow> (string \<times> string) list env" where
  "xml_env tree = null_env\<lparr> CPLParseXMLString := (\<lambda>text. Some tree) \<rparr>"

definition path_style_handle :: VSIS3HandleHelper where
  "path_style_handle =
     VSIS3HandleHelper_new ''SECRET'' ''AKID'' [] ''s3.amazonaws.com'' ''us-east-1'' []
       ''bucket'' ''key.tif'' True False REGULAR"

text \<open>An environment with static credentials in the path-specific options.\<close>

definition static_env :: "(string \<times> string) list env" where
  "static_env =
     null_env\<lparr> VSIGetPathSpecificOption :=
                  (\<lambda>path key. map_of [(''AWS_SECRET_ACCESS_KEY'', ''SECRET''),
                                       (''AWS_ACCESS_KEY_ID'', ''AKID'')] key) \<rparr>"

subsection \<open>Notions for the cache of credentials\<close>




subsection \<open>Notions for the precedence of the credentials file\<close>

text \<open>
  The three keys of the credentials, the string of the credentials that a key names, and
  the warning of \<open>UpdateAndWarnIfInconsistent\<close>, which names the credentials file and the
  config file.
\<close>

definition is_credential_key :: "string \<Rightarrow> bool" where
  "is_credential_key k \<longleftrightarrow>
     EQUAL k ''aws_access_key_id'' \<or> EQUAL k ''aws_secret_access_key''
       \<or> EQUAL k ''aws_session_token''"

definition credential_of_key :: "string \<Rightarrow> credentials \<Rightarrow> string" where
  "credential_of_key k c =
     (if EQUAL k ''aws_access_key_id'' then cAccessKeyId c
      else if EQUAL k ''aws_secret_access_key'' then cSecretAccessKey c
      else cSessionToken c)"

definition inconsistency_warning :: "string \<Rightarrow> string \<Rightarrow> string \<Rightarrow> report" where
  "inconsistency_warning key osCredentials osConfig =
     CPLError CE_Warning CPLE_AppDefined
       (key @ '' defined in both '' @ osCredentials @ '' and '' @ osConfig
          @ ''. The one of '' @ osCredentials @ '' will be used'')"

text \<open>
  A state of the loop over the config file extends another one: the non-empty strings of
  the credentials and the name of the credentials file are kept, and warnings are only
  added.
\<close>

definition config_extends ::
  "credentials \<times> aws_config \<times> report list \<Rightarrow> credentials \<times> aws_config \<times> report list \<Rightarrow> bool" where
  "config_extends st st' \<longleftrightarrow>
     (case st of (c, cf, rs) \<Rightarrow> case st' of (c', cf', rs') \<Rightarrow>
        (cAccessKeyId c = [] \<or> cAccessKeyId c' = cAccessKeyId c) \<and>
        (cSecretAccessKey c = [] \<or> cSecretAccessKey c' = cSecretAccessKey c) \<and>
        (cSessionToken c = [] \<or> cSessionToken c' = cSessionToken c) \<and>
        cfCredentials cf' = cfCredentials cf \<and>
        take (length rs) rs' = rs)"

text \<open>
  Modelled from the spec: a parser of the lines \<open>key = value\<close> of the two files for the
  examples (section 4.B: white space trimmed, the first \<open>=\<close> splits), and an environment
  with a home directory and the two files in it.
\<close>

definition parse_name_value :: "string \<Rightarrow> (string \<times> string) option" where
  "parse_name_value line =
     (case string_find line (CHR ''='') of
        None \<Rightarrow> None
      | Some i \<Rightarrow> Some (CPLString_Trim (take i line), CPLString_Trim (drop (Suc i) line)))"

definition files_env :: "string list \<Rightarrow> string list \<Rightarrow> (string \<times> string) list env" where
  "files_env credentials_lines config_lines =
     null_env\<lparr> CPLGetConfigOption := (\<lambda>key. map_of [(''HOME'', ''/home/u'')] key),
               file_lines := (\<lambda>name. map_of [(''/home/u/.aws/credentials'', credentials_lines),
                                                (''/home/u/.aws/config'', config_lines)] name),
               CPLParseNameValue := parse_name_value \<rparr>"

text \<open>The assignments \<open>m[k] = v\<close> of a list of entries, one after the other.\<close>

definition assign_all :: "std_map \<Rightarrow> (string \<times> string) list \<Rightarrow> std_map" where
  "assign_all m es = foldl (\<lambda>m e. map_assign (fst e) (snd e) m) m es"

section \<open>Properties\<close>

subsection \<open>Evaluation of the string helpers\<close>

lemma char_of_nat_eq_iff: "char_of (n::nat) = c \<longleftrightarrow> n mod 256 = of_char c"
  by (simp add: char_of_eq_iff take_bit_eq_mod)

lemma char_eq_char_of_nat_iff: "c = char_of (n::nat) \<longleftrightarrow> n mod 256 = of_char c"
  using char_of_nat_eq_iff [of n c] by auto

lemma char_of_nat_eval:
  "char_of (n::nat) = Char (odd n) (odd (n div 2)) (odd (n div 4)) (odd (n div 8))
     (odd (n div 16)) (odd (n div 32)) (odd (n div 64)) (odd (n div 128))"
  by (simp add: char_of_def bit_iff_odd)

lemmas string_eval =
  STARTS_WITH_def STARTS_WITH_CI_def EQUAL_def c_tolower_def char_of_nat_eval
  CPLString_tolower_def CPLString_Trim_def is_whitespace_def

subsection \<open>URL encoding\<close>

lemma mem_set_of_char: "c \<in> set L \<longleftrightarrow> (of_char c :: nat) \<in> set (map of_char L)"
  by (auto simp: image_iff)

lemma upper_range:
  "(CHR ''A'' \<le> c \<and> c \<le> CHR ''Z'') \<longleftrightarrow> c \<in> set ''ABCDEFGHIJKLMNOPQRSTUVWXYZ''"
  unfolding mem_set_of_char[of c] less_eq_char_def
  by (simp del: less_eq_char_simp) arith

lemma lower_range:
  "(CHR ''a'' \<le> c \<and> c \<le> CHR ''z'') \<longleftrightarrow> c \<in> set ''abcdefghijklmnopqrstuvwxyz''"
  unfolding mem_set_of_char[of c] less_eq_char_def
  by (simp del: less_eq_char_simp) arith

lemma digit_range:
  "(CHR ''0'' \<le> c \<and> c \<le> CHR ''9'') \<longleftrightarrow> c \<in> set ''0123456789''"
  unfolding mem_set_of_char[of c] less_eq_char_def
  by (simp del: less_eq_char_simp) arith

lemma is_unreserved_iff: "is_unreserved c \<longleftrightarrow> c \<in> unreserved_set"
  unfolding is_unreserved_def unreserved_set_def set_append Un_iff
    upper_range lower_range digit_range
  by auto

lemma achHexUpper_nth:
  assumes "d < 16"
  shows "achHexUpper ! d = upper_hex_digit d"
proof -
  from assms have "d \<in> set [0, 1, 2, 3, 4, 5, 6, 7, 8, 9, 10, 11, 12, 13, 14, 15]"
    by simp arith
  then show ?thesis
    by (auto simp: achHexUpper_def upper_hex_digit_def char_eq_char_of_nat_iff)
qed

lemma CPLSPrintf_pct02X_eq:
  "CPLSPrintf_pct02X c =
     [CHR ''%'', upper_hex_digit ((of_char c :: nat) div 16),
                 upper_hex_digit ((of_char c :: nat) mod 16)]"
proof -
  have "(of_char c :: nat) < 256"
    by simp
  then have "(of_char c :: nat) div 16 < 16"
    by arith
  then show ?thesis
    by (simp add: CPLSPrintf_pct02X_def achHexUpper_nth)
qed

lemma CPLAWSURLEncode_loop_eq:
  "CPLAWSURLEncode_loop s b acc = acc @ concat (map (url_encode_byte b) s)"
proof (induction s arbitrary: acc)
  case Nil
  show ?case by simp
next
  case (Cons ch rest)
  show ?case
    by (simp add: Cons.IH is_unreserved_iff url_encode_byte_def CPLSPrintf_pct02X_eq)
qed

lemma concat_unreserved:
  "\<forall>c\<in>set s. c \<in> unreserved_set \<Longrightarrow> concat (map (url_encode_byte b) s) = s"
  by (induction s) (auto simp: url_encode_byte_def)

text \<open>
  Claim C2.  \<open>CPLAWSURLEncode\<close> encodes byte by byte: a byte of the unreserved set
  (\<open>A-Z\<close>, \<open>a-z\<close>, \<open>0-9\<close>, \<open>_\<close>, \<open>-\<close>, \<open>~\<close>, \<open>.\<close>) is left unchanged, a slash is kept when
  \<open>bEncodeSlash\<close> is false and becomes \<open>%2F\<close> when it is true, and every other byte becomes a
  percent sign followed by the two upper-case hexadecimal digits of the byte.  Consequently
  the encoding is idempotent on a string made only of unreserved bytes.
\<close>

theorem CPLAWSURLEncode_law:
  "CPLAWSURLEncode s b = concat (map (url_encode_byte b) s) \<and>
   ((\<forall>c\<in>set s. c \<in> unreserved_set) \<longrightarrow>
      CPLAWSURLEncode (CPLAWSURLEncode s b) b = CPLAWSURLEncode s b)"
  by (simp add: CPLAWSURLEncode_def CPLAWSURLEncode_loop_eq concat_unreserved)

theorem CPLAWSURLEncode_law_witness:
  "set ''Key_1-a~b.tif'' \<subseteq> unreserved_set \<and>
   CPLAWSURLEncode (CPLAWSURLEncode ''Key_1-a~b.tif'' True) True
     = CPLAWSURLEncode ''Key_1-a~b.tif'' True \<and>
   CPLAWSURLEncode ''a b/c'' True = ''a%20b%2Fc'' \<and>
   CPLAWSURLEncode ''a b/c'' False = ''a%20b/c''"
proof -
  have h: "\<forall>c\<in>set ''Key_1-a~b.tif''. c \<in> unreserved_set"
    by (simp add: unreserved_set_def)
  have e1: "CPLAWSURLEncode ''a b/c'' True = ''a%20b%2Fc''"
    using CPLAWSURLEncode_law [of "''a b/c''" True]
    by (simp add: url_encode_byte_def unreserved_set_def upper_hex_digit_def char_of_nat_eq_iff)
  have e2: "CPLAWSURLEncode ''a b/c'' False = ''a%20b/c''"
    using CPLAWSURLEncode_law [of "''a b/c''" False]
    by (simp add: url_encode_byte_def unreserved_set_def upper_hex_digit_def char_of_nat_eq_iff)
  have s: "set ''Key_1-a~b.tif'' \<subseteq> unreserved_set"
    using h by blast
  have i: "CPLAWSURLEncode (CPLAWSURLEncode ''Key_1-a~b.tif'' True) True
     = CPLAWSURLEncode ''Key_1-a~b.tif'' True"
    using h CPLAWSURLEncode_law [of "''Key_1-a~b.tif''" True] by blast
  show ?thesis
    by (intro conjI) (rule s i e1 e2)+
qed

subsection \<open>Canonical headers\<close>

lemma map_of_map_assign: "map_of (map_assign k v m) = (map_of m)(k \<mapsto> v)"
  by (induction m) (auto simp: fun_upd_twist)

lemma keys_map_assign: "fst ` set (map_assign k v m) = insert k (fst ` set m)"
proof (induction m)
  case Nil
  show ?case by simp
next
  case (Cons a m)
  obtain k' v' where a: "a = (k', v')" by (cases a)
  show ?case
    unfolding a using Cons.IH by (simp add: insert_commute)
qed

lemma is_std_map_assign: "is_std_map m \<Longrightarrow> is_std_map (map_assign k v m)"
proof (induction m)
  case Nil
  then show ?case by (simp add: is_std_map_def)
next
  case (Cons a m)
  obtain k' v' where a: "a = (k', v')" by (cases a)
  from Cons.prems have tl: "is_std_map m" and hd: "\<forall>x\<in>fst ` set m. k' < x"
    by (simp_all add: is_std_map_def a)
  show ?case
  proof (cases "k < k'")
    case True
    have "\<forall>x\<in>fst ` set m. k < x"
      using hd True by (meson less_trans)
    with Cons.prems True show ?thesis
      by (simp add: is_std_map_def a)
  next
    case False
    show ?thesis
    proof (cases "k = k'")
      case True
      with Cons.prems show ?thesis by (simp add: is_std_map_def a)
    next
      case ne: False
      with False have lt: "k' < k" by simp
      have "is_std_map (map_assign k v m)" using Cons.IH tl by simp
      moreover have "\<forall>x\<in>fst ` set (map_assign k v m). k' < x"
        unfolding keys_map_assign using hd lt by simp
      ultimately show ?thesis using False ne
        by (simp add: is_std_map_def a)
    qed
  qed
qed

lemma assign_all_simps:
  "assign_all m [] = m"
  "assign_all m (e # es) = assign_all (map_assign (fst e) (snd e) m) es"
  by (simp_all add: assign_all_def)

lemma folded_entries_simps:
  "folded_entries p [] = []"
  "folded_entries p (h # hs) =
     (case folded_entry p h of None \<Rightarrow> folded_entries p hs | Some e \<Rightarrow> e # folded_entries p hs)"
  unfolding folded_entries_def by (simp_all add: List.map_filter_simps)

lemma fold_eq_assign_all:
  "BuildCanonicalizedHeaders_fold m hs p = assign_all m (folded_entries p hs)"
proof (induction hs arbitrary: m)
  case Nil
  show ?case by (simp add: folded_entries_simps assign_all_simps)
next
  case (Cons h hs)
  show ?case
    by (simp add: Cons.IH folded_entries_simps assign_all_simps folded_entry_def
        split: option.split)
qed

lemma map_of_assign_all: "map_of (assign_all m es) = map_of m ++ map_of (rev es)"
  by (induction es arbitrary: m) (simp_all add: assign_all_simps map_of_map_assign)

lemma is_std_map_assign_all: "is_std_map m \<Longrightarrow> is_std_map (assign_all m es)"
  by (induction es arbitrary: m) (simp_all add: assign_all_simps is_std_map_assign)

lemma std_map_eqI:
  assumes "is_std_map m" "is_std_map m'" "map_of m = map_of m'"
  shows "m = m'"
proof -
  have d: "distinct (map fst m)" "distinct (map fst m')"
    using assms(1,2) by (simp_all add: is_std_map_def strict_sorted_iff)
  have s: "sorted (map fst m)" "sorted (map fst m')"
    using assms(1,2) by (simp_all add: is_std_map_def strict_sorted_iff)
  have e: "set m = set m'"
    using map_of_inject_set[OF d] assms(3) by simp
  have i: "inj_on fst (set m \<union> set m')"
    using d(1) e by (simp add: distinct_map)
  show ?thesis
    by (rule map_sorted_distinct_set_unique[OF i s(1) d(1) s(2) d(2) e])
qed

lemma consistent_entries_iff:
  "consistent_entries es \<longleftrightarrow> (\<forall>k v v'. (k, v) \<in> set es \<longrightarrow> (k, v') \<in> set es \<longrightarrow> v = v')"
  unfolding consistent_entries_def list_all_iff
proof
  assume a: "\<forall>e\<in>set es. \<forall>e'\<in>set es. fst e \<noteq> fst e' \<or> snd e = snd e'"
  show "\<forall>k v v'. (k, v) \<in> set es \<longrightarrow> (k, v') \<in> set es \<longrightarrow> v = v'"
  proof (intro allI impI)
    fix k v v'
    assume "(k, v) \<in> set es" "(k, v') \<in> set es"
    with a have "fst (k, v) \<noteq> fst (k, v') \<or> snd (k, v) = snd (k, v')" by blast
    then show "v = v'" by simp
  qed
next
  assume a: "\<forall>k v v'. (k, v) \<in> set es \<longrightarrow> (k, v') \<in> set es \<longrightarrow> v = v'"
  show "\<forall>e\<in>set es. \<forall>e'\<in>set es. fst e \<noteq> fst e' \<or> snd e = snd e'"
  proof (intro ballI)
    fix e e'
    assume "e \<in> set es" "e' \<in> set es"
    then have "(fst e, snd e) \<in> set es" "(fst e', snd e') \<in> set es" by simp_all
    with a show "fst e \<noteq> fst e' \<or> snd e = snd e'" by metis
  qed
qed

lemma map_of_consistent:
  assumes "consistent_entries es"
  shows "map_of es k = Some v \<longleftrightarrow> (k, v) \<in> set es"
proof
  assume "map_of es k = Some v" then show "(k, v) \<in> set es" by (rule map_of_SomeD)
next
  assume m: "(k, v) \<in> set es"
  then obtain v' where v': "map_of es k = Some v'"
    using weak_map_of_SomeI by fastforce
  then have "(k, v') \<in> set es" by (rule map_of_SomeD)
  with m assms have "v = v'" unfolding consistent_entries_iff by blast
  with v' show "map_of es k = Some v" by simp
qed

lemma map_of_consistent_cong:
  assumes "consistent_entries es" "set es' = set es"
  shows "map_of es' = map_of es"
proof (rule ext)
  fix k
  have c': "consistent_entries es'" using assms by (simp add: consistent_entries_iff)
  show "map_of es' k = map_of es k"
  proof (cases "map_of es k")
    case None
    then have "k \<notin> fst ` set es" by (simp add: map_of_eq_None_iff)
    then have "map_of es' k = None" using assms(2) by (simp add: map_of_eq_None_iff)
    with None show ?thesis by simp
  next
    case (Some v)
    then have "(k, v) \<in> set es'" using assms map_of_consistent by simp
    then have "map_of es' k = Some v" using c' map_of_consistent by simp
    with Some show ?thesis by simp
  qed
qed

lemma mset_folded_entries:
  assumes "mset hs' = mset hs"
  shows "mset (folded_entries p hs') = mset (folded_entries p hs)"
proof -
  have "mset (folded_entries p xs) =
      image_mset (the \<circ> folded_entry p) (filter_mset (\<lambda>x. folded_entry p x \<noteq> None) (mset xs))"
    for xs
    by (simp add: folded_entries_def List.map_filter_def)
  with assms show ?thesis by simp
qed

lemma lines_eq: "BuildCanonicalizedHeaders_lines m = concat (map (\<lambda>(k, v). k @ '':'' @ v @ LF) m)"
  by (induction m) auto

text \<open>
  Claim C3, as amended.  For a base map with sorted keys and a list of existing headers in
  which any two folded headers of the same lower-cased name carry the same trimmed value,
  the result of \<open>BuildCanonicalizedHeaders\<close> is the same for every permutation of the list.
  The output is the sequence of the lines \<open>key:value\<close>, each ended by a line feed, of a map
  whose keys are strictly increasing and which holds the entries of the base map overridden
  by the folded headers: those that start, without regard to case, with the prefix or with
  \<open>Content-MD5\<close>, under their lower-cased name and with their trimmed value.
\<close>

theorem BuildCanonicalizedHeaders_permutation:
  assumes "is_std_map m" and "mset hs' = mset hs"
    and "consistent_entries (folded_entries p hs)"
  shows "BuildCanonicalizedHeaders m hs' p = BuildCanonicalizedHeaders m hs p \<and>
     fst (BuildCanonicalizedHeaders m hs p) =
       concat (map (\<lambda>(k, v). k @ '':'' @ v @ LF) (snd (BuildCanonicalizedHeaders m hs p))) \<and>
     sorted_wrt (<) (map fst (snd (BuildCanonicalizedHeaders m hs p))) \<and>
     map_of (snd (BuildCanonicalizedHeaders m hs p)) = map_of m ++ map_of (folded_entries p hs)"
proof -
  let ?es = "folded_entries p hs" and ?es' = "folded_entries p hs'"
  have se: "set ?es' = set ?es"
    using mset_folded_entries[OF assms(2), of p] by (rule mset_eq_setD)
  have r1: "map_of (rev ?es) = map_of ?es"
    by (rule map_of_consistent_cong[OF assms(3)]) simp
  have r2: "map_of (rev ?es') = map_of ?es"
    by (rule map_of_consistent_cong[OF assms(3)]) (simp add: se)
  have std: "is_std_map (assign_all m ?es)" "is_std_map (assign_all m ?es')"
    using assms(1) by (simp_all add: is_std_map_assign_all)
  have eq: "assign_all m ?es' = assign_all m ?es"
    by (rule std_map_eqI[OF std(2) std(1)]) (simp add: map_of_assign_all r1 r2)
  have a: "BuildCanonicalizedHeaders m hs' p = BuildCanonicalizedHeaders m hs p"
    by (simp add: BuildCanonicalizedHeaders_def fold_eq_assign_all eq)
  have b: "fst (BuildCanonicalizedHeaders m hs p) =
       concat (map (\<lambda>(k, v). k @ '':'' @ v @ LF) (snd (BuildCanonicalizedHeaders m hs p)))"
    by (simp add: BuildCanonicalizedHeaders_def Let_def lines_eq)
  have c: "sorted_wrt (<) (map fst (snd (BuildCanonicalizedHeaders m hs p)))"
    using std(1) by (simp add: BuildCanonicalizedHeaders_def Let_def fold_eq_assign_all is_std_map_def)
  have d: "map_of (snd (BuildCanonicalizedHeaders m hs p)) = map_of m ++ map_of ?es"
    by (simp add: BuildCanonicalizedHeaders_def Let_def fold_eq_assign_all map_of_assign_all r1)
  from a b c d show ?thesis by (intro conjI)
qed


theorem BuildCanonicalizedHeaders_permutation_witness:
  "is_std_map [(''host'', ''h'')] \<and>
   mset [''Content-MD5: q'', ''X-Amz-A:1'', ''Other: z'', ''x-amz-b: 2 '']
     = mset [''x-amz-b: 2 '', ''Content-MD5: q'', ''Other: z'', ''X-Amz-A:1''] \<and>
   consistent_entries
     (folded_entries ''x-amz-'' [''x-amz-b: 2 '', ''Content-MD5: q'', ''Other: z'', ''X-Amz-A:1'']) \<and>
   BuildCanonicalizedHeaders [(''host'', ''h'')]
       [''Content-MD5: q'', ''X-Amz-A:1'', ''Other: z'', ''x-amz-b: 2 ''] ''x-amz-''
     = BuildCanonicalizedHeaders [(''host'', ''h'')]
         [''x-amz-b: 2 '', ''Content-MD5: q'', ''Other: z'', ''X-Amz-A:1''] ''x-amz-'' \<and>
   fst (BuildCanonicalizedHeaders [(''host'', ''h'')]
         [''x-amz-b: 2 '', ''Content-MD5: q'', ''Other: z'', ''X-Amz-A:1''] ''x-amz-'')
     = ''content-md5:q'' @ LF @ ''host:h'' @ LF @ ''x-amz-a:1'' @ LF @ ''x-amz-b:2'' @ LF"
proof -
  let ?hs = "[''x-amz-b: 2 '', ''Content-MD5: q'', ''Other: z'', ''X-Amz-A:1'']"
  let ?hs' = "[''Content-MD5: q'', ''X-Amz-A:1'', ''Other: z'', ''x-amz-b: 2 '']"
  have h1: "is_std_map [(''host'', ''h'')]"
    by (simp add: is_std_map_def)
  have h2: "mset ?hs' = mset ?hs"
    by simp
  have h3: "consistent_entries (folded_entries ''x-amz-'' ?hs)"
    by (simp add: consistent_entries_def folded_entries_simps folded_entry_def string_eval)
  have v: "fst (BuildCanonicalizedHeaders [(''host'', ''h'')] ?hs ''x-amz-'')
     = ''content-md5:q'' @ LF @ ''host:h'' @ LF @ ''x-amz-a:1'' @ LF @ ''x-amz-b:2'' @ LF"
    by (simp add: BuildCanonicalizedHeaders_def string_eval)
  from BuildCanonicalizedHeaders_permutation [OF h1 h2 h3]
  have e: "BuildCanonicalizedHeaders [(''host'', ''h'')] ?hs' ''x-amz-''
     = BuildCanonicalizedHeaders [(''host'', ''h'')] ?hs ''x-amz-''"
    by (rule conjunct1)
  show ?thesis
    by (intro conjI) (rule h1 h2 h3 e v)+
qed

text \<open>
  The claim as stated fails: of two existing headers of the same name the later one wins,
  so exchanging them changes the canonical headers.
\<close>

theorem BuildCanonicalizedHeaders_permutation_counterexample:
  "mset [''x-amz-a:2'', ''x-amz-a:1''] = mset [''x-amz-a:1'', ''x-amz-a:2''] \<and>
   fst (BuildCanonicalizedHeaders [] [''x-amz-a:1'', ''x-amz-a:2''] ''x-amz-'')
     = ''x-amz-a:2'' @ LF \<and>
   fst (BuildCanonicalizedHeaders [] [''x-amz-a:2'', ''x-amz-a:1''] ''x-amz-'')
     = ''x-amz-a:1'' @ LF"
  by (simp add: BuildCanonicalizedHeaders_def string_eval)

subsection \<open>The signature\<close>

lemma mask4: "mask 4 = (15::nat)"
  by (simp add: mask_eq_exp_minus_1)

lemma low_nibble: "(n::nat) AND 0x0f = n mod 16"
proof -
  have "n AND mask 4 = n mod 2 ^ 4"
    by (simp only: take_bit_eq_mask[symmetric] take_bit_eq_mod)
  then show ?thesis by (simp only: mask4) simp
qed

lemma high_nibble:
  assumes "(n::nat) < 256"
  shows "drop_bit 4 (n AND 0xf0) = n div 16"
proof -
  have "drop_bit 4 (n AND 0xf0) = drop_bit 4 n AND drop_bit 4 (0xf0::nat)"
    by (simp only: drop_bit_and)
  also have "drop_bit 4 (0xf0::nat) = 0x0f"
    by (simp add: drop_bit_eq_div)
  also have "drop_bit 4 n AND 0x0f = (n div 16) mod 16"
    by (simp only: low_nibble) (simp add: drop_bit_eq_div)
  also have "\<dots> = n div 16" using assms by simp
  finally show ?thesis .
qed

lemma achHex_nth:
  assumes "d < 16"
  shows "achHex ! d = lower_hex_digit d"
proof -
  from assms have "d \<in> set [0, 1, 2, 3, 4, 5, 6, 7, 8, 9, 10, 11, 12, 13, 14, 15]"
    by simp arith
  then show ?thesis
    by (auto simp: achHex_def lower_hex_digit_def char_eq_char_of_nat_iff)
qed

lemma CPLGetLowerCaseHex_eq: "CPLGetLowerCaseHex bs = lower_hex bs"
proof (induction bs)
  case Nil
  show ?case by (simp add: lower_hex_def)
next
  case (Cons b bs)
  have lt: "(of_char b :: nat) < 256" by simp
  then have d: "(of_char b :: nat) div 16 < 16" by arith
  have m: "(of_char b :: nat) mod 16 < 16" by simp
  have "CPLGetLowerCaseHex (b # bs) =
      achHex ! ((of_char b :: nat) div 16) # achHex ! ((of_char b :: nat) mod 16) # CPLGetLowerCaseHex bs"
    by (simp only: CPLGetLowerCaseHex.simps Let_def low_nibble high_nibble[OF lt])
  then show ?case
    using Cons.IH by (simp only: achHex_nth[OF d] achHex_nth[OF m]) (simp add: lower_hex_def)
qed


text \<open>
  Claim C1, as amended.  The signature returned by \<open>CPLGetAWS_SIGN4_Signature\<close> is
  \<open>lower_hex(HMAC(signing_key, string_to_sign))\<close>, where the string to sign is
  \<open>AWS4-HMAC-SHA256\<close>, the timestamp, the scope and the hexadecimal SHA-256 of the canonical
  request, separated by line feeds, the scope is the date followed by \<open>/region/service/aws4_request\<close>,
  and the signing key is \<open>HMAC(HMAC(HMAC(HMAC("AWS4" + secret, date), region), service),
  "aws4_request")\<close>.  The date is the timestamp resized to eight bytes: its first eight
  characters when it has at least eight, and the timestamp padded with NUL bytes to eight
  bytes when it is shorter.
\<close>

theorem CPLGetAWS_SIGN4_Signature_formula:
  "fst (CPLGetAWS_SIGN4_Signature SHA256 HMAC secret token region payer service verb hdrs host uri
          query payload addsha ts)
     = sigv4_signature SHA256 HMAC secret region service ts
         (take 8 ts @ replicate (8 - length ts) NUL)
         (fst (SIGN4_CanonicalRequest token payer verb hdrs host uri query payload addsha ts)) \<and>
   SIGN4_StringToSign SHA256 ts region service creq
     = ''AWS4-HMAC-SHA256'' @ LF @ ts @ LF
         @ ((take 8 ts @ replicate (8 - length ts) NUL) @ ''/'' @ region @ ''/'' @ service
              @ ''/aws4_request'')
         @ LF @ lower_hex (SHA256 creq) \<and>
   SIGN4_SigningKey HMAC secret ts region service
     = HMAC (HMAC (HMAC (HMAC (''AWS4'' @ secret) (take 8 ts @ replicate (8 - length ts) NUL))
          region) service) ''aws4_request'' \<and>
   (8 \<le> length ts \<longrightarrow>
      fst (CPLGetAWS_SIGN4_Signature SHA256 HMAC secret token region payer service verb hdrs host
             uri query payload addsha ts)
        = sigv4_signature SHA256 HMAC secret region service ts (take 8 ts)
            (fst (SIGN4_CanonicalRequest token payer verb hdrs host uri query payload addsha ts)))"
  by (simp add: CPLGetAWS_SIGN4_Signature_def SIGN4_StringToSign_def SIGN4_SigningKey_def
      SIGN4_Scope_def SIGN4_YYMMDD_def CPLString_resize_def CPLGetLowerCaseHexSHA256_def
      CPLGetLowerCaseHex_eq sigv4_signature_def Let_def split_beta)

text \<open>
  The theorem holds for any two functions in the place of the hash primitives; the instance
  below takes list reversal and concatenation for them.
\<close>

theorem CPLGetAWS_SIGN4_Signature_formula_witness:
  "8 \<le> length ''20150830T123600Z'' \<and>
   fst (CPLGetAWS_SIGN4_Signature rev (@) ''secret'' [] ''us-east-1'' [] ''s3'' ''GET'' []
          ''bucket.s3.amazonaws.com'' ''/key'' [] ''UNSIGNED-PAYLOAD'' False ''20150830T123600Z'')
     = sigv4_signature rev (@) ''secret'' ''us-east-1'' ''s3'' ''20150830T123600Z'' ''20150830''
         (''GET'' @ LF @ ''/key'' @ LF @ LF @ ''host:bucket.s3.amazonaws.com'' @ LF @ LF
            @ ''host'' @ LF @ ''UNSIGNED-PAYLOAD'')"
proof -
  have h: "8 \<le> length ''20150830T123600Z''"
    by simp
  have c: "fst (SIGN4_CanonicalRequest [] [] ''GET'' [] ''bucket.s3.amazonaws.com'' ''/key'' []
                 ''UNSIGNED-PAYLOAD'' False ''20150830T123600Z'')
     = ''GET'' @ LF @ ''/key'' @ LF @ LF @ ''host:bucket.s3.amazonaws.com'' @ LF @ LF
            @ ''host'' @ LF @ ''UNSIGNED-PAYLOAD''"
    by (simp add: SIGN4_CanonicalRequest_def SIGN4_SortedMapHeaders_def
        BuildCanonicalizedHeaders_def)
  from CPLGetAWS_SIGN4_Signature_formula
    [of rev "(@)" "''secret''" "[]" "''us-east-1''" "[]" "''s3''" "''GET''" "[]"
       "''bucket.s3.amazonaws.com''" "''/key''" "[]" "''UNSIGNED-PAYLOAD''" False
       "''20150830T123600Z''"] h
  have "fst (CPLGetAWS_SIGN4_Signature rev (@) ''secret'' [] ''us-east-1'' [] ''s3'' ''GET'' []
          ''bucket.s3.amazonaws.com'' ''/key'' [] ''UNSIGNED-PAYLOAD'' False ''20150830T123600Z'')
     = sigv4_signature rev (@) ''secret'' ''us-east-1'' ''s3'' ''20150830T123600Z''
         (take 8 ''20150830T123600Z'')
         (fst (SIGN4_CanonicalRequest [] [] ''GET'' [] ''bucket.s3.amazonaws.com'' ''/key'' []
                 ''UNSIGNED-PAYLOAD'' False ''20150830T123600Z''))"
    by blast
  then show ?thesis
    using h by (simp only: c) simp
qed

text \<open>
  The claim as stated fails for a timestamp of fewer than eight characters: the date of
  the scope is then not the characters of the timestamp but these padded with NUL bytes.
\<close>

theorem SIGN4_Scope_counterexample:
  "SIGN4_Scope ''2015'' ''us-east-1'' ''s3'' \<noteq> spec_scope ''2015'' ''us-east-1'' ''s3'' \<and>
   SIGN4_Scope ''2015'' ''us-east-1'' ''s3''
     = ''2015'' @ replicate 4 NUL @ ''/us-east-1/s3/aws4_request''"
  by (simp add: SIGN4_Scope_def SIGN4_YYMMDD_def CPLString_resize_def spec_scope_def)


subsection \<open>Bucket and object key\<close>

lemma string_find_None: "ch \<notin> set s \<Longrightarrow> string_find s ch = None"
  by (induction s) auto

lemma string_find_append: "ch \<notin> set b \<Longrightarrow> string_find (b @ ch # k) ch = Some (length b)"
  by (induction b) auto

text \<open>
  The paths of \<open>GetBucketAndObjectKey\<close>.  It returns false, without reporting an error,
  for an empty URI.  For a non-empty URI with no slash it succeeds with the whole URI as
  bucket and an empty object key when \<open>bAllowNoObject\<close> is true, and fails with an
  AppDefined error otherwise.  For a URI with a slash it returns true with the text before
  the first slash as bucket and everything after that slash as key.
\<close>

lemma GetBucketAndObjectKey_cases:
  "(GetBucketAndObjectKey [] pfx allow key0 = (False, [], key0, [])) \<and>
   (pszURI \<noteq> [] \<and> CHR ''/'' \<notin> set pszURI \<longrightarrow>
      GetBucketAndObjectKey pszURI pfx True key0 = (True, pszURI, [], []) \<and>
      GetBucketAndObjectKey pszURI pfx False key0 =
        (False, pszURI, key0,
         [CPLError CE_Failure CPLE_AppDefined
            (''Filename should be of the form '' @ pfx @ ''bucket/key'')])) \<and>
   (CHR ''/'' \<notin> set bucket \<longrightarrow>
      GetBucketAndObjectKey (bucket @ ''/'' @ key) pfx allow key0 = (True, bucket, key, []))"
  by (simp add: GetBucketAndObjectKey_def string_find_None string_find_append
      CPLString_resize_def)

text \<open>
  Claim C6.  The claim has \<open>GetBucketAndObjectKey\<close> reject an empty bucket.  The test of
  line 481, \<open>osBucket.empty()\<close>, is made while \<open>osBucket\<close> still holds the whole URI, before
  \<open>resize(nPos)\<close> cuts it at the first slash.  So the empty URI is rejected, but the URI
  \<open>/key\<close>, which is what the file name \<open>/vsis3//key\<close> gives, is accepted with an empty bucket
  and the key \<open>key\<close>, whatever \<open>bAllowNoObject\<close> is.  \<open>BuildFromURI\<close> then constructs a handle
  for it whose URL is the bare endpoint: \<open>BuildURL\<close> takes the empty bucket for a request on
  the service and leaves the key out.
\<close>

theorem GetBucketAndObjectKey_slash_key:
  "GetBucketAndObjectKey ''/key'' ''/vsis3/'' False [] = (True, [], ''key'', []) \<and>
   GetBucketAndObjectKey ''/key'' ''/vsis3/'' True [] = (True, [], ''key'', []) \<and>
   GetBucketAndObjectKey [] ''/vsis3/'' False [] = (False, [], [], []) \<and>
   BuildFromURI static_env (Some ''/key'') ''/vsis3/'' False [] null_globals
     = (Some (VSIS3HandleHelper_new ''SECRET'' ''AKID'' [] ''s3.amazonaws.com'' ''us-east-1'' []
                [] ''key'' True True REGULAR),
        null_globals, []) \<and>
   m_osURL (VSIS3HandleHelper_new ''SECRET'' ''AKID'' [] ''s3.amazonaws.com'' ''us-east-1'' []
              [] ''key'' True True REGULAR)
     = ''https://s3.amazonaws.com''"
proof (intro conjI)
  show "GetBucketAndObjectKey ''/key'' ''/vsis3/'' False [] = (True, [], ''key'', [])"
    by (simp add: GetBucketAndObjectKey_def CPLString_resize_def)
  show "GetBucketAndObjectKey ''/key'' ''/vsis3/'' True [] = (True, [], ''key'', [])"
    by (simp add: GetBucketAndObjectKey_def CPLString_resize_def)
  show "GetBucketAndObjectKey [] ''/vsis3/'' False [] = (False, [], [], [])"
    by (simp add: GetBucketAndObjectKey_def)
  show "BuildFromURI static_env (Some ''/key'') ''/vsis3/'' False [] null_globals
     = (Some (VSIS3HandleHelper_new ''SECRET'' ''AKID'' [] ''s3.amazonaws.com'' ''us-east-1'' []
                [] ''key'' True True REGULAR),
        null_globals, [])"
    by (simp add: BuildFromURI_def GetConfiguration_def option_or_path_def
        FetchNameValueDef_def with_default_def CPLTestBool_def GetBucketAndObjectKey_def
        CPLString_resize_def static_env_def null_env_def empty_credentials_def Let_def
        string_eval)
  show "m_osURL (VSIS3HandleHelper_new ''SECRET'' ''AKID'' [] ''s3.amazonaws.com'' ''us-east-1'' []
              [] ''key'' True True REGULAR)
     = ''https://s3.amazonaws.com''"
    by (simp add: VSIS3HandleHelper_new_def BuildURL_def)
qed

subsection \<open>The destructor\<close>

lemma destructor_loop_eq:
  "i \<le> length s \<Longrightarrow> destructor_loop i s = take i s @ replicate (length s - i) NUL"
proof (induction i s rule: destructor_loop.induct)
  case (1 i s)
  show ?case
  proof (cases "i < length s")
    case True
    have "destructor_loop i s = destructor_loop (i + 1) (s[i := NUL])"
      using True by (subst destructor_loop.simps) simp
    also have "\<dots> = take (i + 1) (s[i := NUL]) @ replicate (length s - (i + 1)) NUL"
      using "1.IH"[OF True] True by simp
    also have "take (i + 1) (s[i := NUL]) = take i s @ [NUL]"
      using True by (simp add: take_Suc_conv_app_nth)
    also have "(take i s @ [NUL]) @ replicate (length s - (i + 1)) NUL
        = take i s @ replicate (length s - i) NUL"
      using True by (simp add: replicate_Suc[symmetric] Suc_diff_Suc del: replicate_Suc)
    finally show ?thesis .
  next
    case False
    with "1.prems" have "i = length s" by simp
    then show ?thesis by (subst destructor_loop.simps) simp
  qed
qed

text \<open>
  Claim C9, as amended.  The destructor of the handle overwrites every byte of the stored
  secret access key with zero; it leaves the session token and the access key id as they
  were.
\<close>

theorem destructor_overwrites_secret_key:
  "m_osSecretAccessKey (VSIS3HandleHelper_destructor h)
     = replicate (length (m_osSecretAccessKey h)) NUL \<and>
   m_osSessionToken (VSIS3HandleHelper_destructor h) = m_osSessionToken h \<and>
   m_osAccessKeyId (VSIS3HandleHelper_destructor h) = m_osAccessKeyId h"
  by (simp add: VSIS3HandleHelper_destructor_def destructor_loop_eq)

text \<open>
  The claim as stated fails: the session token of a destroyed handle still holds its bytes.
\<close>

theorem destructor_session_token_counterexample:
  "m_osSessionToken (VSIS3HandleHelper_destructor
      (VSIS3HandleHelper_new ''SECRET'' ''AKID'' ''TOKEN'' ''s3.amazonaws.com'' ''us-east-1'' []
         ''bucket'' ''key'' True True EC2)) = ''TOKEN'' \<and>
   m_osSecretAccessKey (VSIS3HandleHelper_destructor
      (VSIS3HandleHelper_new ''SECRET'' ''AKID'' ''TOKEN'' ''s3.amazonaws.com'' ''us-east-1'' []
         ''bucket'' ''key'' True True EC2)) = replicate 6 NUL"
  by (simp add: VSIS3HandleHelper_destructor_def VSIS3HandleHelper_new_def destructor_loop_eq
      eval_nat_numeral)



subsection \<open>The simple JSON parser\<close>



subsection \<open>The cache of credentials\<close>















subsection \<open>Reaction to an error of the server\<close>

lemma endpoint_has_bucket_prefixI: "endpoint_has_bucket_prefix (b @ ''.'' @ suffix) b"
  by (simp add: endpoint_has_bucket_prefix_def)

lemma EQUAL_codes:
  "EQUAL ''AuthorizationHeaderMalformed'' ''AuthorizationHeaderMalformed''"
  "\<not> EQUAL ''PermanentRedirect'' ''AuthorizationHeaderMalformed''"
  "EQUAL ''PermanentRedirect'' ''PermanentRedirect''"
  "\<not> EQUAL ''PermanentRedirect'' ''TemporaryRedirect''"
  by (simp_all add: string_eval)

text \<open>
  Claim C8.  For a response body that starts as an XML document or with \<open><Error>\<close> and that
  the parser accepts: when the error code is \<open>AuthorizationHeaderMalformed\<close> and the body
  has a region, \<open>CanRestartOnError\<close> sets the region of the handle to it and returns true;
  when the code is \<open>PermanentRedirect\<close>, the endpoint of the body is the bucket, a dot and a
  suffix, and the handle is in path style with a bucket without a dot or with headers that
  have no \<open>x-amz-bucket-region\<close>, it switches the handle to virtual hosting, sets the
  endpoint to the suffix after the bucket and the dot, rebuilds the URL and returns true.
\<close>

theorem CanRestartOnError_adjusts:
  assumes "STARTS_WITH msg ''<?xml'' \<or> STARTS_WITH msg ''<Error>''"
    and "CPLParseXMLString env msg = Some t"
  shows
   "(CPLGetXMLValue env t ''=Error.Code'' = Some ''AuthorizationHeaderMalformed'' \<and>
     CPLGetXMLValue env t ''=Error.Region'' = Some region \<longrightarrow>
       CanRestartOnError env msg hdrs bSetError h
         = (True, h\<lparr> m_osRegion := region \<rparr>, True, [])) \<and>
    (CPLGetXMLValue env t ''=Error.Code'' = Some ''PermanentRedirect'' \<and>
     CPLGetXMLValue env t ''=Error.Endpoint'' = Some (m_osBucket h @ ''.'' @ suffix) \<and>
     \<not> m_bUseVirtualHosting h \<and>
     (CHR ''.'' \<notin> set (m_osBucket h) \<or>
      (case hdrs of None \<Rightarrow> True | Some hs \<Rightarrow> strstr hs ''x-amz-bucket-region: '' = None)) \<longrightarrow>
       CanRestartOnError env msg hdrs bSetError h
         = (True,
            h\<lparr> m_bUseVirtualHosting := True, m_osEndpoint := suffix,
               m_osURL := BuildURL suffix (m_osBucket h) (m_osObjectKey h) (m_bUseHTTPS h) True
                            @ GetQueryString h False \<rparr>,
            True, []))"
proof (intro conjI impI)
  assume a: "CPLGetXMLValue env t ''=Error.Code'' = Some ''AuthorizationHeaderMalformed'' \<and>
     CPLGetXMLValue env t ''=Error.Region'' = Some region"
  show "CanRestartOnError env msg hdrs bSetError h = (True, h\<lparr> m_osRegion := region \<rparr>, True, [])"
    using assms a by (simp add: CanRestartOnError_def EQUAL_codes SetRegion_def)
next
  assume a: "CPLGetXMLValue env t ''=Error.Code'' = Some ''PermanentRedirect'' \<and>
     CPLGetXMLValue env t ''=Error.Endpoint'' = Some (m_osBucket h @ ''.'' @ suffix) \<and>
     \<not> m_bUseVirtualHosting h \<and>
     (CHR ''.'' \<notin> set (m_osBucket h) \<or>
      (case hdrs of None \<Rightarrow> True | Some hs \<Rightarrow> strstr hs ''x-amz-bucket-region: '' = None))"
  have d: "drop (Suc (length (m_osBucket h))) (m_osBucket h @ CHR ''.'' # suffix) = suffix"
    by simp
  have p: "endpoint_has_bucket_prefix (m_osBucket h @ CHR ''.'' # suffix) (m_osBucket h)"
    using endpoint_has_bucket_prefixI [of "m_osBucket h" suffix] by simp
  have c: "CHR ''.'' \<notin> set (m_osBucket h) \<or> hdrs = None \<or>
      (\<exists>hs. hdrs = Some hs \<and> strstr hs ''x-amz-bucket-region: '' = None)"
    using a by (cases hdrs) auto
  from c show "CanRestartOnError env msg hdrs bSetError h
         = (True,
            h\<lparr> m_bUseVirtualHosting := True, m_osEndpoint := suffix,
               m_osURL := BuildURL suffix (m_osBucket h) (m_osObjectKey h) (m_bUseHTTPS h) True
                            @ GetQueryString h False \<rparr>,
            True, [])"
  proof (elim disjE exE conjE)
    assume "CHR ''.'' \<notin> set (m_osBucket h)"
    then show ?thesis
      using assms a p d
      by (simp add: CanRestartOnError_def EQUAL_codes SetEndpoint_def RebuildURL_def
          GetQueryString_def Let_def)
  next
    assume "hdrs = None"
    then show ?thesis
      using assms a p d
      by (simp add: CanRestartOnError_def EQUAL_codes SetEndpoint_def RebuildURL_def
          GetQueryString_def Let_def)
  next
    fix hs assume "hdrs = Some hs" "strstr hs ''x-amz-bucket-region: '' = None"
    then show ?thesis
      using assms a p d
      by (simp add: CanRestartOnError_def EQUAL_codes SetEndpoint_def RebuildURL_def
          GetQueryString_def Let_def)
  qed
qed


theorem CanRestartOnError_adjusts_witness:
  "STARTS_WITH ''<Error><Code>AuthorizationHeaderMalformed</Code><Region>ap-south-1</Region></Error>''
     ''<Error>'' \<and>
   CanRestartOnError
       (xml_env [(''=Error.Code'', ''AuthorizationHeaderMalformed''), (''=Error.Region'', ''ap-south-1'')])
       ''<Error><Code>AuthorizationHeaderMalformed</Code><Region>ap-south-1</Region></Error>''
       None True path_style_handle
     = (True, path_style_handle\<lparr> m_osRegion := ''ap-south-1'' \<rparr>, True, []) \<and>
   STARTS_WITH ''<Error><Code>PermanentRedirect</Code><Endpoint>bucket.s3.eu-west-1.amazonaws.com</Endpoint></Error>''
     ''<Error>'' \<and>
   \<not> m_bUseVirtualHosting path_style_handle \<and>
   CHR ''.'' \<notin> set (m_osBucket path_style_handle) \<and>
   CanRestartOnError
       (xml_env [(''=Error.Code'', ''PermanentRedirect''),
                 (''=Error.Endpoint'', ''bucket.s3.eu-west-1.amazonaws.com'')])
       ''<Error><Code>PermanentRedirect</Code><Endpoint>bucket.s3.eu-west-1.amazonaws.com</Endpoint></Error>''
       None True path_style_handle
     = (True,
        path_style_handle\<lparr> m_bUseVirtualHosting := True,
                            m_osEndpoint := ''s3.eu-west-1.amazonaws.com'',
                            m_osURL := ''https://bucket.s3.eu-west-1.amazonaws.com/key.tif'' \<rparr>,
        True, [])"
proof -
  let ?m1 = "''<Error><Code>AuthorizationHeaderMalformed</Code><Region>ap-south-1</Region></Error>''"
  let ?t1 = "[(''=Error.Code'', ''AuthorizationHeaderMalformed''), (''=Error.Region'', ''ap-south-1'')]"
  let ?m2 = "''<Error><Code>PermanentRedirect</Code><Endpoint>bucket.s3.eu-west-1.amazonaws.com</Endpoint></Error>''"
  let ?t2 = "[(''=Error.Code'', ''PermanentRedirect''),
              (''=Error.Endpoint'', ''bucket.s3.eu-west-1.amazonaws.com'')]"
  have s1: "STARTS_WITH ?m1 ''<Error>''" by (simp add: STARTS_WITH_def)
  have s2: "STARTS_WITH ?m2 ''<Error>''" by (simp add: STARTS_WITH_def)
  have p1: "CPLParseXMLString (xml_env ?t1) ?m1 = Some ?t1"
    by (simp add: xml_env_def null_env_def)
  have p2: "CPLParseXMLString (xml_env ?t2) ?m2 = Some ?t2"
    by (simp add: xml_env_def null_env_def)
  have v: "\<not> m_bUseVirtualHosting path_style_handle"
    by (simp add: path_style_handle_def VSIS3HandleHelper_new_def)
  have b: "CHR ''.'' \<notin> set (m_osBucket path_style_handle)"
    by (simp add: path_style_handle_def VSIS3HandleHelper_new_def)
  have h1: "CPLGetXMLValue (xml_env ?t1) ?t1 ''=Error.Code'' = Some ''AuthorizationHeaderMalformed'' \<and>
     CPLGetXMLValue (xml_env ?t1) ?t1 ''=Error.Region'' = Some ''ap-south-1''"
    by (simp add: xml_env_def null_env_def)
  have h2: "CPLGetXMLValue (xml_env ?t2) ?t2 ''=Error.Code'' = Some ''PermanentRedirect'' \<and>
     CPLGetXMLValue (xml_env ?t2) ?t2 ''=Error.Endpoint''
       = Some (m_osBucket path_style_handle @ ''.'' @ ''s3.eu-west-1.amazonaws.com'') \<and>
     \<not> m_bUseVirtualHosting path_style_handle \<and>
     (CHR ''.'' \<notin> set (m_osBucket path_style_handle) \<or>
      (case None of None \<Rightarrow> True | Some hs \<Rightarrow> strstr hs ''x-amz-bucket-region: '' = None))"
    by (simp add: xml_env_def null_env_def path_style_handle_def VSIS3HandleHelper_new_def)
  note r1 = CanRestartOnError_adjusts [OF disjI2 [OF s1] p1, THEN conjunct1, THEN mp, OF h1]
  note r2 = CanRestartOnError_adjusts [OF disjI2 [OF s2] p2, THEN conjunct2, THEN mp, OF h2]
  have u: "BuildURL ''s3.eu-west-1.amazonaws.com'' (m_osBucket path_style_handle)
      (m_osObjectKey path_style_handle) (m_bUseHTTPS path_style_handle) True
      @ GetQueryString path_style_handle False
      = ''https://bucket.s3.eu-west-1.amazonaws.com/key.tif''"
    by (simp add: path_style_handle_def VSIS3HandleHelper_new_def BuildURL_def GetQueryString_def
        CPLAWSURLEncode_def is_unreserved_def)
  have r2': "CanRestartOnError (xml_env ?t2) ?m2 None True path_style_handle
     = (True,
        path_style_handle\<lparr> m_bUseVirtualHosting := True,
                            m_osEndpoint := ''s3.eu-west-1.amazonaws.com'',
                            m_osURL := ''https://bucket.s3.eu-west-1.amazonaws.com/key.tif'' \<rparr>,
        True, [])"
    using r2 [of True] by (simp only: u)
  show ?thesis
    by (intro conjI) (rule s1 r1 s2 v b r2')+
qed



subsection \<open>The URL of a handle\<close>

lemma string_find_None_iff: "string_find s ch = None \<longleftrightarrow> ch \<notin> set s"
  by (induction s) auto

lemma CPLTestBool_TRUE_FALSE: "CPLTestBool ''TRUE''" "\<not> CPLTestBool ''FALSE''"
  by (simp_all add: CPLTestBool_def string_eval)

lemma option_or_path_unset:
  "FindName opts key = None \<Longrightarrow> VSIGetPathSpecificOption env path key = None
     \<Longrightarrow> option_or_path env opts path key def = def"
  by (simp add: option_or_path_def FetchNameValueDef_def with_default_def)

lemma VSIS3HandleHelper_new_sel:
  "m_bUseVirtualHosting (VSIS3HandleHelper_new s a t e r p b k https vh src) = vh"
  "m_osBucket (VSIS3HandleHelper_new s a t e r p b k https vh src) = b"
  "m_osObjectKey (VSIS3HandleHelper_new s a t e r p b k https vh src) = k"
  "m_osEndpoint (VSIS3HandleHelper_new s a t e r p b k https vh src) = e"
  "m_bUseHTTPS (VSIS3HandleHelper_new s a t e r p b k https vh src) = https"
  "m_osURL (VSIS3HandleHelper_new s a t e r p b k https vh src) = BuildURL e b k https vh"
  by (simp_all add: VSIS3HandleHelper_new_def)

lemma BuildFromURI_virtual_hosting:
  assumes b: "BuildFromURI env uri pfx allow opts g = (Some h, g', rs)"
    and o: "FindName opts ''AWS_VIRTUAL_HOSTING'' = None"
    and v: "VSIGetPathSpecificOption env (''/vsis3/'' @ with_default uri []) ''AWS_VIRTUAL_HOSTING'' = None"
  shows "(m_bUseVirtualHosting h \<longleftrightarrow> CHR ''.'' \<notin> set (m_osBucket h)) \<and>
         m_osURL h = BuildURL (m_osEndpoint h) (m_osBucket h) (m_osObjectKey h) (m_bUseHTTPS h)
                       (m_bUseVirtualHosting h)"
proof -
  let ?path = "''/vsis3/'' @ with_default uri []"
  obtain ok c r0 src g1 rs1 where
    gc: "GetConfiguration env ?path opts empty_credentials g = (ok, c, r0, src, g1, rs1)"
    by (cases "GetConfiguration env ?path opts empty_credentials g") auto
  obtain okB bkt key rsB where
    gb: "(if uri \<noteq> None \<and> uri \<noteq> Some []
          then GetBucketAndObjectKey (with_default uri []) pfx allow []
          else (True, [], [], [])) = (okB, bkt, key, rsB)"
    by (cases "(if uri \<noteq> None \<and> uri \<noteq> Some []
          then GetBucketAndObjectKey (with_default uri []) pfx allow []
          else (True, [], [], []))") auto
  note vh = option_or_path_unset [OF o v]
  from b have "ok" "okB"
    unfolding BuildFromURI_def Let_def gc gb prod.case
    by (auto split: if_splits)
  with b have h: "h = VSIS3HandleHelper_new (cSecretAccessKey c) (cAccessKeyId c) (cSessionToken c)
      (with_default (VSIGetPathSpecificOption env ?path ''AWS_S3_ENDPOINT'') ''s3.amazonaws.com'')
      (if option_or_path env opts ?path ''AWS_DEFAULT_REGION'' [] \<noteq> []
       then option_or_path env opts ?path ''AWS_DEFAULT_REGION'' [] else r0)
      (with_default (VSIGetPathSpecificOption env ?path ''AWS_REQUEST_PAYER'') [])
      bkt key
      (CPLTestBool (with_default (VSIGetPathSpecificOption env ?path ''AWS_HTTPS'') ''YES''))
      (CPLTestBool (if string_find bkt (CHR ''.'') = None then ''TRUE'' else ''FALSE''))
      src"
    unfolding BuildFromURI_def Let_def gc gb prod.case vh
    by simp
  show ?thesis
    unfolding h VSIS3HandleHelper_new_sel
    by (simp add: CPLTestBool_TRUE_FALSE string_find_None_iff)
qed

text \<open>
  Claim C7.  The URL built by \<open>BuildURL\<close> is the scheme (\<open>https\<close> if and only if
  \<open>bUseHTTPS\<close>), \<open>://\<close> and then the endpoint when the bucket is empty, the bucket, a dot,
  the endpoint, a slash and the encoded key under virtual hosting, and the endpoint, a
  slash, the bucket, a slash and the encoded key in path style; the key is URL-encoded
  with its slashes kept.  A handle that \<open>BuildFromURI\<close> constructs while the option
  \<open>AWS_VIRTUAL_HOSTING\<close> is set neither in the options of the call nor in the
  path-specific options uses virtual hosting if and only if its bucket name has no dot,
  and its URL is the one \<open>BuildURL\<close> gives for its fields.
\<close>

theorem BuildURL_forms:
  "BuildURL e b k https vh
     = (if https then ''https'' else ''http'') @ ''://''
         @ (if b = [] then e
            else if vh then b @ ''.'' @ e @ ''/'' @ concat (map (url_encode_byte False) k)
            else e @ ''/'' @ b @ ''/'' @ concat (map (url_encode_byte False) k)) \<and>
   (BuildFromURI env uri pfx allow opts g = (Some h, g', rs) \<and>
    FindName opts ''AWS_VIRTUAL_HOSTING'' = None \<and>
    VSIGetPathSpecificOption env (''/vsis3/'' @ with_default uri []) ''AWS_VIRTUAL_HOSTING'' = None
    \<longrightarrow>
      (m_bUseVirtualHosting h \<longleftrightarrow> CHR ''.'' \<notin> set (m_osBucket h)) \<and>
      m_osURL h = BuildURL (m_osEndpoint h) (m_osBucket h) (m_osObjectKey h) (m_bUseHTTPS h)
                    (m_bUseVirtualHosting h))"
proof (intro conjI impI)
  show "BuildURL e b k https vh
     = (if https then ''https'' else ''http'') @ ''://''
         @ (if b = [] then e
            else if vh then b @ ''.'' @ e @ ''/'' @ concat (map (url_encode_byte False) k)
            else e @ ''/'' @ b @ ''/'' @ concat (map (url_encode_byte False) k))"
    by (simp add: BuildURL_def CPLAWSURLEncode_def CPLAWSURLEncode_loop_eq)
next
  assume a: "BuildFromURI env uri pfx allow opts g = (Some h, g', rs) \<and>
    FindName opts ''AWS_VIRTUAL_HOSTING'' = None \<and>
    VSIGetPathSpecificOption env (''/vsis3/'' @ with_default uri []) ''AWS_VIRTUAL_HOSTING'' = None"
  note r = BuildFromURI_virtual_hosting [OF a [THEN conjunct1] a [THEN conjunct2, THEN conjunct1]
      a [THEN conjunct2, THEN conjunct2]]
  from r show "m_bUseVirtualHosting h \<longleftrightarrow> CHR ''.'' \<notin> set (m_osBucket h)" by (rule conjunct1)
  from r show "m_osURL h = BuildURL (m_osEndpoint h) (m_osBucket h) (m_osObjectKey h) (m_bUseHTTPS h)
                    (m_bUseVirtualHosting h)" by (rule conjunct2)
qed


lemmas BuildFromURI_eval =
  BuildFromURI_def GetConfiguration_def option_or_path_def FetchNameValueDef_def
  with_default_def CPLTestBool_def GetBucketAndObjectKey_def CPLString_resize_def
  static_env_def null_env_def empty_credentials_def Let_def

theorem BuildURL_forms_witness:
  "BuildFromURI static_env (Some ''bucket/key.tif'') ''/vsis3/'' False [] null_globals
     = (Some (VSIS3HandleHelper_new ''SECRET'' ''AKID'' [] ''s3.amazonaws.com'' ''us-east-1'' []
                ''bucket'' ''key.tif'' True True REGULAR),
        null_globals, []) \<and>
   FindName [] ''AWS_VIRTUAL_HOSTING'' = None \<and>
   VSIGetPathSpecificOption static_env (''/vsis3/'' @ with_default (Some ''bucket/key.tif'') [])
     ''AWS_VIRTUAL_HOSTING'' = None \<and>
   m_bUseVirtualHosting
     (VSIS3HandleHelper_new ''SECRET'' ''AKID'' [] ''s3.amazonaws.com'' ''us-east-1'' []
        ''bucket'' ''key.tif'' True True REGULAR) \<and>
   m_osURL
     (VSIS3HandleHelper_new ''SECRET'' ''AKID'' [] ''s3.amazonaws.com'' ''us-east-1'' []
        ''bucket'' ''key.tif'' True True REGULAR)
     = ''https://bucket.s3.amazonaws.com/key.tif'' \<and>
   BuildFromURI static_env (Some ''my.bucket/obj'') ''/vsis3/'' False [] null_globals
     = (Some (VSIS3HandleHelper_new ''SECRET'' ''AKID'' [] ''s3.amazonaws.com'' ''us-east-1'' []
                ''my.bucket'' ''obj'' True False REGULAR),
        null_globals, []) \<and>
   m_osURL
     (VSIS3HandleHelper_new ''SECRET'' ''AKID'' [] ''s3.amazonaws.com'' ''us-east-1'' []
        ''my.bucket'' ''obj'' True False REGULAR)
     = ''https://s3.amazonaws.com/my.bucket/obj''"
proof -
  let ?h1 = "VSIS3HandleHelper_new ''SECRET'' ''AKID'' [] ''s3.amazonaws.com'' ''us-east-1'' []
                ''bucket'' ''key.tif'' True True REGULAR"
  let ?h2 = "VSIS3HandleHelper_new ''SECRET'' ''AKID'' [] ''s3.amazonaws.com'' ''us-east-1'' []
                ''my.bucket'' ''obj'' True False REGULAR"
  have b1: "BuildFromURI static_env (Some ''bucket/key.tif'') ''/vsis3/'' False [] null_globals
     = (Some ?h1, null_globals, [])"
    by (simp add: BuildFromURI_eval string_eval)
  have b2: "BuildFromURI static_env (Some ''my.bucket/obj'') ''/vsis3/'' False [] null_globals
     = (Some ?h2, null_globals, [])"
    by (simp add: BuildFromURI_eval string_eval)
  have o: "FindName [] ''AWS_VIRTUAL_HOSTING'' = None"
    by simp
  have v: "VSIGetPathSpecificOption static_env (''/vsis3/'' @ with_default (Some ''bucket/key.tif'') [])
     ''AWS_VIRTUAL_HOSTING'' = None"
    by (simp add: static_env_def null_env_def)
  note t = BuildURL_forms [of _ _ _ _ _ static_env "Some ''bucket/key.tif''" "''/vsis3/''" False "[]"
      null_globals ?h1 null_globals "[]", THEN conjunct2, THEN mp, OF conjI [OF b1 conjI [OF o v]]]
  have d: "CHR ''.'' \<notin> set (m_osBucket ?h1)"
    by (simp add: VSIS3HandleHelper_new_def)
  have vh: "m_bUseVirtualHosting ?h1"
    using t [THEN conjunct1] d by blast
  have u1: "m_osURL ?h1 = ''https://bucket.s3.amazonaws.com/key.tif''"
    using t [THEN conjunct2]
    by (simp add: VSIS3HandleHelper_new_def BuildURL_def CPLAWSURLEncode_def is_unreserved_def)
  have u2: "m_osURL ?h2 = ''https://s3.amazonaws.com/my.bucket/obj''"
    by (simp add: VSIS3HandleHelper_new_def BuildURL_def CPLAWSURLEncode_def is_unreserved_def)
  show ?thesis
    by (intro conjI) (rule b1 o v vh u1 b2 u2)+
qed



subsection \<open>Precedence of the credentials file\<close>

lemma config_extends_refl: "config_extends st st"
  by (cases st) (simp add: config_extends_def)

lemma config_extends_trans:
  "config_extends st st' \<Longrightarrow> config_extends st' st'' \<Longrightarrow> config_extends st st''"
proof -
  assume a: "config_extends st st'" and b: "config_extends st' st''"
  obtain c cf rs where st: "st = (c, cf, rs)" by (cases st)
  obtain c' cf' rs' where st': "st' = (c', cf', rs')" by (cases st')
  obtain c'' cf'' rs'' where st'': "st'' = (c'', cf'', rs'')" by (cases st'')
  from a b have p1: "take (length rs) rs' = rs" and p2: "take (length rs') rs'' = rs'"
    by (simp_all add: config_extends_def st st' st'')
  have "length rs \<le> length rs'" using p1 by (metis length_take min.cobounded1)
  then have "take (length rs) rs'' = take (length rs) (take (length rs') rs'')"
    by (simp add: min_def)
  then have p3: "take (length rs) rs'' = rs" using p1 p2 by simp
  from a b p3 show ?thesis
    unfolding config_extends_def st st' st'' prod.case
    by (metis (no_types, lifting))
qed

lemma config_key_value_akid:
  "EQUAL k ''aws_access_key_id'' \<Longrightarrow>
   config_key_value cg k v (c, cf, rs)
     = (c\<lparr> cAccessKeyId := fst (UpdateAndWarnIfInconsistent k (cAccessKeyId c) v (cfCredentials cf) cg) \<rparr>,
        cf, rs @ snd (UpdateAndWarnIfInconsistent k (cAccessKeyId c) v (cfCredentials cf) cg))"
  by (simp add: config_key_value_def split_beta)

lemma config_key_value_secret:
  "\<not> EQUAL k ''aws_access_key_id'' \<Longrightarrow> EQUAL k ''aws_secret_access_key'' \<Longrightarrow>
   config_key_value cg k v (c, cf, rs)
     = (c\<lparr> cSecretAccessKey := fst (UpdateAndWarnIfInconsistent k (cSecretAccessKey c) v (cfCredentials cf) cg) \<rparr>,
        cf, rs @ snd (UpdateAndWarnIfInconsistent k (cSecretAccessKey c) v (cfCredentials cf) cg))"
  by (simp add: config_key_value_def split_beta)

lemma config_key_value_token:
  "\<not> EQUAL k ''aws_access_key_id'' \<Longrightarrow> \<not> EQUAL k ''aws_secret_access_key'' \<Longrightarrow>
   EQUAL k ''aws_session_token'' \<Longrightarrow>
   config_key_value cg k v (c, cf, rs)
     = (c\<lparr> cSessionToken := fst (UpdateAndWarnIfInconsistent k (cSessionToken c) v (cfCredentials cf) cg) \<rparr>,
        cf, rs @ snd (UpdateAndWarnIfInconsistent k (cSessionToken c) v (cfCredentials cf) cg))"
  by (simp add: config_key_value_def split_beta)

lemma config_key_value_other:
  "\<not> EQUAL k ''aws_access_key_id'' \<Longrightarrow> \<not> EQUAL k ''aws_secret_access_key'' \<Longrightarrow>
   \<not> EQUAL k ''aws_session_token'' \<Longrightarrow>
   \<exists>cf'. config_key_value cg k v (c, cf, rs) = (c, cf', rs) \<and> cfCredentials cf' = cfCredentials cf"
  by (simp add: config_key_value_def)

lemma UpdateAndWarnIfInconsistent_fst:
  "osVal = [] \<or> fst (UpdateAndWarnIfInconsistent k osVal new cr cg) = osVal"
  by (simp add: UpdateAndWarnIfInconsistent_def)

lemma config_key_value_extends: "config_extends st (config_key_value cg k v st)"
proof -
  obtain c cf rs where st: "st = (c, cf, rs)" by (cases st)
  consider (a) "EQUAL k ''aws_access_key_id''"
    | (b) "\<not> EQUAL k ''aws_access_key_id''" "EQUAL k ''aws_secret_access_key''"
    | (c) "\<not> EQUAL k ''aws_access_key_id''" "\<not> EQUAL k ''aws_secret_access_key''"
          "EQUAL k ''aws_session_token''"
    | (d) "\<not> EQUAL k ''aws_access_key_id''" "\<not> EQUAL k ''aws_secret_access_key''"
          "\<not> EQUAL k ''aws_session_token''"
    by blast
  then show ?thesis
  proof cases
    case a
    show ?thesis
      unfolding st config_key_value_akid[OF a] config_extends_def prod.case
      using UpdateAndWarnIfInconsistent_fst [of "cAccessKeyId c" k v "cfCredentials cf" cg]
      by simp
  next
    case b
    show ?thesis
      unfolding st config_key_value_secret[OF b] config_extends_def prod.case
      using UpdateAndWarnIfInconsistent_fst [of "cSecretAccessKey c" k v "cfCredentials cf" cg]
      by simp
  next
    case c
    show ?thesis
      unfolding st config_key_value_token[OF c] config_extends_def prod.case
      using UpdateAndWarnIfInconsistent_fst [of "cSessionToken c" k v "cfCredentials cf" cg]
      by simp
  next
    case d
    from config_key_value_other[OF d, of cg v c cf rs] obtain cf' where
      e: "config_key_value cg k v (c, cf, rs) = (c, cf', rs)" "cfCredentials cf' = cfCredentials cf"
      by blast
    show ?thesis
      unfolding st e config_extends_def prod.case using e(2) by simp
  qed
qed

lemma config_loop_extends:
  "config_extends st (config_loop env cg h1 h2 ls b st)"
proof (induction ls arbitrary: b st)
  case Nil
  show ?case by (simp add: config_extends_refl)
next
  case (Cons l ls)
  show ?case
  proof (cases "take 1 l = ''[''")
    case True
    then show ?thesis
      using Cons.IH [of st "l = h1 \<or> l = h2"] by (simp add: config_extends_refl)
  next
    case False
    show ?thesis
    proof (cases b)
      case False
      with \<open>take 1 l \<noteq> ''[''\<close> show ?thesis using Cons.IH [of st False] by simp
    next
      case True
      let ?st' = "case CPLParseNameValue env l of None \<Rightarrow> st
                  | Some (k, v) \<Rightarrow> config_key_value cg k v st"
      have e: "config_extends st ?st'"
        by (auto simp: config_extends_refl config_key_value_extends split: option.splits)
      have "config_loop env cg h1 h2 (l # ls) b st = config_loop env cg h1 h2 ls True ?st'"
        using True \<open>take 1 l \<noteq> ''[''\<close> by simp
      then show ?thesis
        using config_extends_trans [OF e Cons.IH [of ?st' True]] by simp
    qed
  qed
qed

lemma config_loop_skip:
  "\<forall>l\<in>set pre. l \<noteq> h1 \<and> l \<noteq> h2 \<Longrightarrow>
   config_loop env cg h1 h2 (pre @ ls) False st = config_loop env cg h1 h2 ls False st"
  by (induction pre) auto

lemma config_loop_enter:
  "take 1 hdr = ''['' \<Longrightarrow> hdr = h1 \<or> hdr = h2 \<Longrightarrow>
   config_loop env cg h1 h2 (hdr # ls) False st = config_loop env cg h1 h2 ls True st"
  by auto

lemma config_loop_body:
  "\<forall>l\<in>set b1. take 1 l \<noteq> ''['' \<Longrightarrow>
   \<exists>st1. config_extends st st1 \<and>
         config_loop env cg h1 h2 (b1 @ ls) True st = config_loop env cg h1 h2 ls True st1"
proof (induction b1 arbitrary: st)
  case Nil
  have "config_extends st st \<and>
      config_loop env cg h1 h2 ([] @ ls) True st = config_loop env cg h1 h2 ls True st"
    by (simp add: config_extends_refl)
  then show ?case by (rule exI)
next
  case (Cons l b1)
  let ?st' = "case CPLParseNameValue env l of None \<Rightarrow> st
              | Some (k, v) \<Rightarrow> config_key_value cg k v st"
  have e: "config_extends st ?st'"
    by (auto simp: config_extends_refl config_key_value_extends split: option.splits)
  from Cons.prems have n: "take 1 l \<noteq> ''[''" and r: "\<forall>l\<in>set b1. take 1 l \<noteq> ''[''"
    by simp_all
  from Cons.IH [OF r, of ?st'] obtain st1 where
    s: "config_extends ?st' st1"
       "config_loop env cg h1 h2 (b1 @ ls) True ?st' = config_loop env cg h1 h2 ls True st1"
    by blast
  have "config_loop env cg h1 h2 ((l # b1) @ ls) True st = config_loop env cg h1 h2 ls True st1"
    using n s(2) by simp
  with config_extends_trans [OF e s(1)] show ?case by blast
qed

lemma config_extends_credential:
  assumes "config_extends (c, cf, rs) (c', cf', rs')" "credential_of_key k c \<noteq> []"
  shows "credential_of_key k c' = credential_of_key k c"
  using assms unfolding config_extends_def prod.case credential_of_key_def
  by (auto split: if_splits)

lemma config_extends_reports:
  assumes "config_extends (c, cf, rs) (c', cf', rs')" "w \<in> set rs"
  shows "w \<in> set rs'"
proof -
  from assms(1) have "take (length rs) rs' = rs"
    by (simp add: config_extends_def)
  then have "set rs \<subseteq> set rs'"
    by (metis set_take_subset)
  with assms(2) show ?thesis by blast
qed

lemma config_extends_credentials_file:
  "config_extends (c, cf, rs) (c', cf', rs') \<Longrightarrow> cfCredentials cf' = cfCredentials cf"
  by (simp add: config_extends_def)

lemma UpdateAndWarnIfInconsistent_nonempty:
  "v1 \<noteq> [] \<Longrightarrow>
   UpdateAndWarnIfInconsistent k v1 v2 cr cg
     = (v1, if v2 \<noteq> v1 then [inconsistency_warning k cr cg] else [])"
  by (auto simp: UpdateAndWarnIfInconsistent_def inconsistency_warning_def)

lemma config_key_value_credential:
  assumes k: "is_credential_key key"
    and v: "credential_of_key key c1 = v1" "v1 \<noteq> []"
    and r: "config_key_value cg key v2 (c1, cf1, rs1) = (c2, cf2, rs2)"
  shows "credential_of_key key c2 = v1 \<and>
         (v2 \<noteq> v1 \<longrightarrow> inconsistency_warning key (cfCredentials cf1) cg \<in> set rs2)"
proof -
  consider (a) "EQUAL key ''aws_access_key_id''"
    | (b) "\<not> EQUAL key ''aws_access_key_id''" "EQUAL key ''aws_secret_access_key''"
    | (c) "\<not> EQUAL key ''aws_access_key_id''" "\<not> EQUAL key ''aws_secret_access_key''"
          "EQUAL key ''aws_session_token''"
    using k unfolding is_credential_key_def by blast
  then show ?thesis
  proof cases
    case a
    from v a have f: "cAccessKeyId c1 = v1" by (simp add: credential_of_key_def)
    from r show ?thesis
      unfolding config_key_value_akid[OF a] f UpdateAndWarnIfInconsistent_nonempty[OF v(2)]
      using a by (auto simp: credential_of_key_def)
  next
    case b
    from v b have f: "cSecretAccessKey c1 = v1" by (simp add: credential_of_key_def)
    from r show ?thesis
      unfolding config_key_value_secret[OF b] f UpdateAndWarnIfInconsistent_nonempty[OF v(2)]
      using b by (auto simp: credential_of_key_def)
  next
    case c
    from v c have f: "cSessionToken c1 = v1" by (simp add: credential_of_key_def)
    from r show ?thesis
      unfolding config_key_value_token[OF c] f UpdateAndWarnIfInconsistent_nonempty[OF v(2)]
      using c by (auto simp: credential_of_key_def)
  qed
qed

lemma config_loop_precedence:
  assumes pre: "\<forall>l\<in>set pre. l \<noteq> h1 \<and> l \<noteq> h2"
    and hdr: "take 1 hdr = ''[''" "hdr = h1 \<or> hdr = h2"
    and body: "\<forall>l\<in>set (b1 @ line # b2). take 1 l \<noteq> ''[''"
    and line: "CPLParseNameValue env line = Some (key, v2)" "is_credential_key key"
    and cred: "credential_of_key key c0 = v1" "v1 \<noteq> []"
    and res: "config_loop env cg h1 h2 (pre @ hdr # (b1 @ line # b2) @ rest) False (c0, cf0, [])
                = (c, cf, rs)"
  shows "credential_of_key key c = v1 \<and>
         (v2 \<noteq> v1 \<longrightarrow> inconsistency_warning key (cfCredentials cf0) cg \<in> set rs) \<and>
         cfCredentials cf = cfCredentials cf0"
proof -
  from body have bb1: "\<forall>l\<in>set b1. take 1 l \<noteq> ''[''" and bl: "take 1 line \<noteq> ''[''"
    by simp_all
  have s1: "config_loop env cg h1 h2 (pre @ hdr # (b1 @ line # b2) @ rest) False (c0, cf0, [])
      = config_loop env cg h1 h2 (b1 @ line # b2 @ rest) True (c0, cf0, [])"
    by (simp only: config_loop_skip[OF pre] config_loop_enter[OF hdr] append_assoc append_Cons)
  from config_loop_body [OF bb1, of "(c0, cf0, [])" env cg h1 h2 "line # b2 @ rest"]
  obtain st1 where
    e1: "config_extends (c0, cf0, []) st1"
    and s2: "config_loop env cg h1 h2 (b1 @ line # b2 @ rest) True (c0, cf0, [])
             = config_loop env cg h1 h2 (line # b2 @ rest) True st1"
    by blast
  obtain c1 cf1 rs1 where st1: "st1 = (c1, cf1, rs1)" by (cases st1)
  obtain c2 cf2 rs2 where st2: "config_key_value cg key v2 (c1, cf1, rs1) = (c2, cf2, rs2)"
    by (cases "config_key_value cg key v2 (c1, cf1, rs1)")
  have s3: "config_loop env cg h1 h2 (line # b2 @ rest) True st1
            = config_loop env cg h1 h2 (b2 @ rest) True (c2, cf2, rs2)"
    using bl line(1) by (simp add: st1 st2)
  have v1c1: "credential_of_key key c1 = v1"
    using config_extends_credential [OF e1 [unfolded st1]] cred by simp
  have f1: "cfCredentials cf1 = cfCredentials cf0"
    using config_extends_credentials_file [OF e1 [unfolded st1]] .
  note kv = config_key_value_credential [OF line(2) v1c1 cred(2) st2]
  have e2: "config_extends (c1, cf1, rs1) (c2, cf2, rs2)"
    using config_key_value_extends [of "(c1, cf1, rs1)" cg key v2] by (simp add: st2)
  have e3: "config_extends (c2, cf2, rs2) (c, cf, rs)"
    using config_loop_extends [of "(c2, cf2, rs2)" env cg h1 h2 "b2 @ rest" True]
      res s1 s2 s3 by simp
  have a: "credential_of_key key c = v1"
    using config_extends_credential [OF e3] kv cred(2) by simp
  have b: "v2 \<noteq> v1 \<longrightarrow> inconsistency_warning key (cfCredentials cf0) cg \<in> set rs"
    using config_extends_reports [OF e3] kv f1 by auto
  have c: "cfCredentials cf = cfCredentials cf0"
    using config_extends_credentials_file [OF e3] config_extends_credentials_file [OF e2] f1
    by simp
  from a b c show ?thesis by blast
qed

text \<open>
  Claim C5, as amended.  Let the config file have a section of the selected profile
  (under the header \<open>[profile]\<close> or \<open>[profile profile]\<close>, the first such header of the file)
  with a line that sets one of \<open>aws_access_key_id\<close>, \<open>aws_secret_access_key\<close> and
  \<open>aws_session_token\<close>, and let the credentials file give a non-empty value for that key
  in the selected profile.  Then the value of the credentials file is the one in the
  result of \<open>GetConfigurationFromAWSConfigFiles\<close>, and when the value of the config file
  differs from it, the warning that names the key, the credentials file and the config
  file is among the warnings emitted; \<open>UpdateAndWarnIfInconsistent\<close> emits no warning when
  the two values are equal.
\<close>

theorem credentials_file_precedence:
  assumes files: "file_lines env (AWSConfig_osConfig env path)
                    = Some (pre @ hdr # (b1 @ line # b2) @ rest)"
    and prof: "profile = AWSConfig_osProfile env path pszProfile"
    and pre: "\<forall>l\<in>set pre. l \<noteq> ''['' @ profile @ '']'' \<and> l \<noteq> ''[profile '' @ profile @ '']''"
    and hdr: "hdr = ''['' @ profile @ '']'' \<or> hdr = ''[profile '' @ profile @ '']''"
    and body: "\<forall>l\<in>set (b1 @ line # b2). take 1 l \<noteq> ''[''"
    and line: "CPLParseNameValue env line = Some (key, v2)" "is_credential_key key"
    and cred: "credential_of_key key
                 (snd (ReadAWSCredentials env profile (AWSConfig_osCredentials env path))) = v1"
              "v1 \<noteq> []"
  shows "credential_of_key key
           (fst (snd (GetConfigurationFromAWSConfigFiles env path pszProfile cf0))) = v1 \<and>
         (v2 \<noteq> v1 \<longrightarrow>
            inconsistency_warning key (AWSConfig_osCredentials env path)
              (AWSConfig_osConfig env path)
            \<in> set (snd (snd (snd (GetConfigurationFromAWSConfigFiles env path pszProfile cf0))))) \<and>
         UpdateAndWarnIfInconsistent key v1 v2 (AWSConfig_osCredentials env path)
             (AWSConfig_osConfig env path)
           = (v1, if v2 \<noteq> v1
                  then [inconsistency_warning key (AWSConfig_osCredentials env path)
                          (AWSConfig_osConfig env path)]
                  else [])"
proof -
  let ?cg = "AWSConfig_osConfig env path" and ?cr = "AWSConfig_osCredentials env path"
  let ?h1 = "''['' @ profile @ '']''" and ?h2 = "''[profile '' @ profile @ '']''"
  let ?c0 = "snd (ReadAWSCredentials env profile ?cr)"
  let ?cf1 = "cf0\<lparr> cfCredentials := ?cr \<rparr>"
  let ?ls = "pre @ hdr # (b1 @ line # b2) @ rest"
  obtain c cf rs where l: "config_loop env ?cg ?h1 ?h2 ?ls False (?c0, ?cf1, []) = (c, cf, rs)"
    by (cases "config_loop env ?cg ?h1 ?h2 ?ls False (?c0, ?cf1, [])")
  have th: "take 1 hdr = ''[''" using hdr by auto
  note p = config_loop_precedence [OF pre th hdr body line cred l]
  have g: "fst (snd (GetConfigurationFromAWSConfigFiles env path pszProfile cf0)) = c"
      "snd (snd (snd (GetConfigurationFromAWSConfigFiles env path pszProfile cf0))) = rs"
    unfolding GetConfigurationFromAWSConfigFiles_def Let_def prof[symmetric] files option.case l
    by simp_all
  show ?thesis
    unfolding g using p by (simp add: UpdateAndWarnIfInconsistent_nonempty[OF cred(2)])
qed

lemmas files_eval =
  files_env_def null_env_def AWSConfig_osConfig_def AWSConfig_osCredentials_def
  AWSConfig_osDotAws_def AWSConfig_osProfile_def with_default_def parse_name_value_def
  ReadAWSCredentials_def empty_credentials_def empty_aws_config_def credential_of_key_def
  is_credential_key_def GetConfigurationFromAWSConfigFiles_def config_key_value_def
  UpdateAndWarnIfInconsistent_def inconsistency_warning_def Let_def

theorem credentials_file_precedence_witness:
  "is_credential_key ''aws_access_key_id'' \<and>
   CPLParseNameValue
       (files_env [''[default]'', ''aws_access_key_id = AKCRED'', ''aws_secret_access_key = SECRET'']
          [''[default]'', ''region = eu-west-1'', ''aws_access_key_id = AKCONF''])
       ''aws_access_key_id = AKCONF''
     = Some (''aws_access_key_id'', ''AKCONF'') \<and>
   credential_of_key ''aws_access_key_id''
       (snd (ReadAWSCredentials
          (files_env [''[default]'', ''aws_access_key_id = AKCRED'', ''aws_secret_access_key = SECRET'']
             [''[default]'', ''region = eu-west-1'', ''aws_access_key_id = AKCONF''])
          ''default'' ''/home/u/.aws/credentials''))
     = ''AKCRED'' \<and>
   credential_of_key ''aws_access_key_id''
       (fst (snd (GetConfigurationFromAWSConfigFiles
          (files_env [''[default]'', ''aws_access_key_id = AKCRED'', ''aws_secret_access_key = SECRET'']
             [''[default]'', ''region = eu-west-1'', ''aws_access_key_id = AKCONF''])
          [] None empty_aws_config)))
     = ''AKCRED'' \<and>
   CPLError CE_Warning CPLE_AppDefined
       (''aws_access_key_id defined in both /home/u/.aws/credentials and /home/u/.aws/config''
          @ ''. The one of /home/u/.aws/credentials will be used'')
     \<in> set (snd (snd (snd (GetConfigurationFromAWSConfigFiles
          (files_env [''[default]'', ''aws_access_key_id = AKCRED'', ''aws_secret_access_key = SECRET'']
             [''[default]'', ''region = eu-west-1'', ''aws_access_key_id = AKCONF''])
          [] None empty_aws_config))))"
proof -
  let ?E = "files_env [''[default]'', ''aws_access_key_id = AKCRED'', ''aws_secret_access_key = SECRET'']
             [''[default]'', ''region = eu-west-1'', ''aws_access_key_id = AKCONF'']"
  have files: "file_lines ?E (AWSConfig_osConfig ?E [])
      = Some ([] @ ''[default]'' # ([''region = eu-west-1''] @ ''aws_access_key_id = AKCONF'' # []) @ [])"
    by (simp add: files_eval)
  have prof: "''default'' = AWSConfig_osProfile ?E [] None"
    by (simp add: files_eval)
  have pre: "\<forall>l\<in>set []. l \<noteq> ''['' @ ''default'' @ '']'' \<and> l \<noteq> ''[profile '' @ ''default'' @ '']''"
    by simp
  have hdr: "''[default]'' = ''['' @ ''default'' @ '']'' \<or> ''[default]'' = ''[profile '' @ ''default'' @ '']''"
    by simp
  have body: "\<forall>l\<in>set ([''region = eu-west-1''] @ ''aws_access_key_id = AKCONF'' # []). take 1 l \<noteq> ''[''"
    by simp
  have line: "CPLParseNameValue ?E ''aws_access_key_id = AKCONF'' = Some (''aws_access_key_id'', ''AKCONF'')"
    by (simp add: files_eval string_eval)
  have key: "is_credential_key ''aws_access_key_id''"
    by (simp add: is_credential_key_def string_eval)
  have crf: "AWSConfig_osCredentials ?E [] = ''/home/u/.aws/credentials''"
    by (simp add: files_eval)
  have cgf: "AWSConfig_osConfig ?E [] = ''/home/u/.aws/config''"
    by (simp add: files_eval)
  have cred: "credential_of_key ''aws_access_key_id''
      (snd (ReadAWSCredentials ?E ''default'' (AWSConfig_osCredentials ?E []))) = ''AKCRED''"
    unfolding crf by (simp add: files_eval string_eval)
  have ne: "''AKCRED'' \<noteq> []" by simp
  have d: "''AKCONF'' \<noteq> ''AKCRED''" by simp
  note t = credentials_file_precedence [OF files prof pre hdr body line key cred ne,
      of empty_aws_config]
  have a: "credential_of_key ''aws_access_key_id''
       (fst (snd (GetConfigurationFromAWSConfigFiles ?E [] None empty_aws_config))) = ''AKCRED''"
    using t by (rule conjunct1)
  have b: "CPLError CE_Warning CPLE_AppDefined
       (''aws_access_key_id defined in both /home/u/.aws/credentials and /home/u/.aws/config''
          @ ''. The one of /home/u/.aws/credentials will be used'')
     \<in> set (snd (snd (snd (GetConfigurationFromAWSConfigFiles ?E [] None empty_aws_config))))"
    using t [THEN conjunct2, THEN conjunct1, THEN mp, OF d]
    unfolding crf cgf by (simp add: inconsistency_warning_def)
  show ?thesis
    using key line cred [unfolded crf] a b by (intro conjI)
qed

text \<open>
  The claim as stated fails: when the two files set the same value, no warning is emitted;
  and when the credentials file sets an empty value, the value of the config file is kept.
\<close>

theorem credentials_file_precedence_counterexample:
  "is_credential_key ''aws_access_key_id'' \<and>
   CPLParseNameValue
       (files_env [''[default]'', ''aws_access_key_id = AKID'', ''aws_secret_access_key = SECRET'']
          [''[default]'', ''aws_access_key_id = AKID''])
       ''aws_access_key_id = AKID''
     = Some (''aws_access_key_id'', ''AKID'') \<and>
   GetConfigurationFromAWSConfigFiles
       (files_env [''[default]'', ''aws_access_key_id = AKID'', ''aws_secret_access_key = SECRET'']
          [''[default]'', ''aws_access_key_id = AKID''])
       [] None empty_aws_config
     = (True,
        \<lparr> cSecretAccessKey = ''SECRET'', cAccessKeyId = ''AKID'', cSessionToken = [] \<rparr>,
        empty_aws_config\<lparr> cfCredentials := ''/home/u/.aws/credentials'' \<rparr>,
        []) \<and>
   GetConfigurationFromAWSConfigFiles
       (files_env [''[default]'', ''aws_access_key_id ='', ''aws_secret_access_key = SECRET'']
          [''[default]'', ''aws_access_key_id = AKCONF''])
       [] None empty_aws_config
     = (True,
        \<lparr> cSecretAccessKey = ''SECRET'', cAccessKeyId = ''AKCONF'', cSessionToken = [] \<rparr>,
        empty_aws_config\<lparr> cfCredentials := ''/home/u/.aws/credentials'' \<rparr>,
        [])"
  by (simp add: files_eval string_eval)

end
